theory Spec2Isabelle
  imports Complex_Main "HOL-Library.Log_Nat"
begin

section \<open>Python values used by the notebook\<close>

text \<open>
  The program is the code of the notebook \<^verbatim>\<open>notebooks/example-workflows/plot-2mt.ipynb\<close>.
  Its cells run top to bottom, once. A Python \<^verbatim>\<open>str\<close> is modelled as a \<open>string\<close> whose
  characters are the code points below 256; a Python \<^verbatim>\<open>int\<close> is an \<open>int\<close>. An exception
  that a statement raises is a value \<open>Inl e\<close> of a sum type and ends the run.
\<close>

datatype error =
    ValueError
  | IndexError
  | KeyError string
  | AttributeError string
  | DimensionalityError
  | CRSError
  | MemoryError

subsection \<open>\<^verbatim>\<open>str.split(sep)\<close> with a one-character separator, and \<^verbatim>\<open>xs[0]\<close>\<close>

fun py_split :: "char \<Rightarrow> string \<Rightarrow> string list" where
  "py_split sep [] = [[]]"
| "py_split sep (c # cs) =
     (if c = sep then [] # py_split sep cs
      else (case py_split sep cs of
              [] \<Rightarrow> [[c]]
            | w # ws \<Rightarrow> (c # w) # ws))"

definition py_item0 :: "'a list \<Rightarrow> error + 'a" where
  "py_item0 xs = (case xs of [] \<Rightarrow> Inl IndexError | x # _ \<Rightarrow> Inr x)"

subsection \<open>\<^verbatim>\<open>int(s)\<close> on a string, base 10\<close>

text \<open>
  CPython reads \<^verbatim>\<open>int(s)\<close> as: optional white space, an optional sign, one or more decimal
  digits in which single underscores may stand between two digits, optional white space,
  end of string. White space is tab, line feed, vertical tab, form feed, carriage return
  and space, and above ASCII the code points U+0085 and U+00A0. A literal of more than 4300
  digits is refused (the interpreter's default limit). Every refusal is a \<^verbatim>\<open>ValueError\<close>.
\<close>

definition is_space :: "char \<Rightarrow> bool" where
  "is_space c = (of_char c \<in> {9, 10, 11, 12, 13, 32, 133, 160 :: nat})"

definition is_digit :: "char \<Rightarrow> bool" where
  "is_digit c = (48 \<le> (of_char c :: nat) \<and> (of_char c :: nat) \<le> 57)"

definition digit_value :: "char \<Rightarrow> int" where
  "digit_value c = int (of_char c) - 48"

definition strip_space :: "string \<Rightarrow> string" where
  "strip_space s = rev (dropWhile is_space (rev (dropWhile is_space s)))"

fun digits_body :: "string \<Rightarrow> bool" where
  "digits_body [] = False"
| "digits_body [c] = is_digit c"
| "digits_body (c # d # cs) =
     (is_digit c \<and> (if d = CHR ''_'' then digits_body cs else digits_body (d # cs)))"

definition max_str_digits :: nat where
  "max_str_digits = 4300"

definition py_int :: "string \<Rightarrow> error + int" where
  "py_int s =
     (let t = strip_space s;
          neg = (case t of [] \<Rightarrow> False | c # _ \<Rightarrow> c = CHR ''-'');
          body = (case t of [] \<Rightarrow> []
                  | c # cs \<Rightarrow> if c = CHR ''-'' \<or> c = CHR ''+'' then cs else t);
          ds = filter is_digit body
      in if \<not> digits_body body \<or> max_str_digits < length ds then Inl ValueError
         else (let n = foldl (\<lambda>a c. 10 * a + digit_value c) 0 ds
               in Inr (if neg then - n else n)))"

section \<open>Remote object references\<close>






section \<open>The store resolver\<close>

text \<open>
  \<^verbatim>\<open>s3fs.S3FileSystem(anon=..., asynchronous=...)\<close> is a record of its two keyword
  arguments. The two store constructors keep their arguments in the order of the calls:
  \<^verbatim>\<open>zarr.storage.FsspecStore(fs, path=p)\<close> and \<^verbatim>\<open>s3fs.S3Map(url, s3=fs)\<close>.
\<close>

record S3FileSystem =
  anon :: bool
  asynchronous :: bool

datatype store =
    FsspecStore S3FileSystem string
  | S3Map string S3FileSystem

datatype branch = V3 | Legacy

fun branch_of :: "store \<Rightarrow> branch" where
  "branch_of (FsspecStore fs p) = V3"
| "branch_of (S3Map u fs) = Legacy"

fun store_fs :: "store \<Rightarrow> S3FileSystem" where
  "store_fs (FsspecStore fs p) = fs"
| "store_fs (S3Map u fs) = fs"

fun store_path :: "store \<Rightarrow> string" where
  "store_path (FsspecStore fs p) = p"
| "store_path (S3Map u fs) = u"

text \<open>\<^verbatim>\<open>major_version = int(package_version.split(".")[0])\<close>\<close>

definition major_version :: "string \<Rightarrow> error + int" where
  "major_version package_version =
     (case py_item0 (py_split CHR ''.'' package_version) of
        Inl e \<Rightarrow> Inl e
      | Inr p \<Rightarrow> py_int p)"

text \<open>
  The cell that opens the two stores. \<^verbatim>\<open>u1[5:]\<close> is \<open>drop 5 u1\<close>: a slice never raises.
  Building a file system or a store object sends no request; what the object store
  answers later, when the dataset is read, is no part of this cell.
\<close>

definition open_stores :: "string \<Rightarrow> string \<Rightarrow> string \<Rightarrow> error + store \<times> store" where
  "open_stores package_version u1 u2 =
     (case major_version package_version of
        Inl e \<Rightarrow> Inl e
      | Inr mv \<Rightarrow>
          if mv = 3 then
            (let url1_3 = drop 5 u1;
                 url2_3 = drop 5 u2;
                 fs = \<lparr>anon = True, asynchronous = True\<rparr>
             in Inr (FsspecStore fs url1_3, FsspecStore fs url2_3))
          else
            (let fs = \<lparr>anon = True, asynchronous = False\<rparr>
             in Inr (S3Map u1 fs, S3Map u2 fs)))"

section \<open>The floating-point numbers of numpy\<close>

text \<open>
  A numpy float of a given type is a finite number that the type represents, an infinity
  or a NaN. A type has a precision \<open>p\<close> (the bits of the significand, the hidden one
  included) and a largest exponent \<open>emax\<close>; its finite numbers are the \<open>m * 2^k\<close> with
  \<open>\<bar>m\<bar> < 2^p\<close> and \<open>2 - emax - p \<le> k \<le> emax - p + 1\<close>. An arithmetic result is the exact
  result rounded to the nearest such number, a tie going to the even significand, and to an
  infinity when the rounded magnitude reaches \<open>2^(emax + 1)\<close> (IEEE 754, the default
  rounding).
\<close>

datatype dtype = Float16 | Float32 | Float64

fun precision :: "dtype \<Rightarrow> nat" where
  "precision Float16 = 11"
| "precision Float32 = 24"
| "precision Float64 = 53"

fun emax :: "dtype \<Rightarrow> int" where
  "emax Float16 = 15"
| "emax Float32 = 127"
| "emax Float64 = 1023"

datatype np_float = Finite real | PosInf | NegInf | NaN

definition pow2 :: "int \<Rightarrow> real" where
  "pow2 k = (if 0 \<le> k then 2 ^ nat k else 1 / 2 ^ nat (- k))"

text \<open>
  The exponent of a number other than zero: the \<open>e\<close> with \<open>2^e \<le> \<bar>x\<bar> < 2^(e + 1)\<close>,
  computed from the number of bits of a whole number.
\<close>

definition binade :: "real \<Rightarrow> int" where
  "binade x =
     (if 1 \<le> \<bar>x\<bar> then bitlen \<lfloor>\<bar>x\<bar>\<rfloor> - 1 else - bitlen (\<lceil>1 / \<bar>x\<bar>\<rceil> - 1))"

definition round_half_even :: "real \<Rightarrow> int" where
  "round_half_even t =
     (let f = \<lfloor>t\<rfloor>; d = t - of_int f
      in if d < 1 / 2 then f else if 1 / 2 < d then f + 1 else if even f then f else f + 1)"

text \<open>The distance between neighbouring numbers of the type around \<open>x\<close>.\<close>

definition ulp :: "dtype \<Rightarrow> real \<Rightarrow> real" where
  "ulp t x = pow2 (max (binade x) (1 - emax t) - int (precision t) + 1)"

definition round_nearest :: "dtype \<Rightarrow> real \<Rightarrow> real" where
  "round_nearest t x =
     (if x = 0 then 0 else of_int (round_half_even (x / ulp t x)) * ulp t x)"

text \<open>The float of type \<open>t\<close> for an exact result \<open>x\<close>.\<close>

definition to_dtype :: "dtype \<Rightarrow> real \<Rightarrow> np_float" where
  "to_dtype t x =
     (let r = round_nearest t x
      in if pow2 (emax t + 1) \<le> \<bar>r\<bar> then (if 0 < x then PosInf else NegInf)
         else Finite r)"

text \<open>The finite numbers of a type, and the values of a type.\<close>

definition is_float :: "dtype \<Rightarrow> real \<Rightarrow> bool" where
  "is_float t r \<longleftrightarrow>
     (\<exists>m k. r = real_of_int m * pow2 k \<and> \<bar>m\<bar> < 2 ^ precision t
        \<and> 2 - emax t - int (precision t) \<le> k \<and> k \<le> emax t - int (precision t) + 1)"

fun is_dtype_value :: "dtype \<Rightarrow> np_float \<Rightarrow> bool" where
  "is_dtype_value t (Finite r) = is_float t r"
| "is_dtype_value t PosInf = True"
| "is_dtype_value t NegInf = True"
| "is_dtype_value t NaN = True"

text \<open>
  A float that is the nearest of its type to \<open>v\<close> is within half the distance between
  neighbouring floats of \<open>v\<close>, or it is an infinity.
\<close>

fun within_half_ulp :: "dtype \<Rightarrow> real \<Rightarrow> np_float \<Rightarrow> bool" where
  "within_half_ulp t v (Finite r) = (\<bar>r - v\<bar> \<le> ulp t v / 2)"
| "within_half_ulp t v PosInf = True"
| "within_half_ulp t v NegInf = True"
| "within_half_ulp t v NaN = True"

section \<open>The map projection\<close>

text \<open>
  \<^verbatim>\<open>HRRR_proj\<close> is the data frame that \<^verbatim>\<open>pd.read_json\<close> makes of the JSON document,
  indexed by the document's keys: a map from a key to the number that the frame holds for
  it (the 64-bit number read from the document's literal). \<^verbatim>\<open>HRRR_proj.loc[key]\<close> raises
  \<^verbatim>\<open>KeyError\<close> for a key the document does not have. \<^verbatim>\<open>.astype('float32')\<close> takes the
  number to the nearest 32-bit float, and \<^verbatim>\<open>.squeeze()\<close> takes the one-entry series to
  its entry.
\<close>

definition loc_float32 :: "(string \<rightharpoonup> real) \<Rightarrow> string \<Rightarrow> error + np_float" where
  "loc_float32 HRRR_proj key =
     (case HRRR_proj key of
        None \<Rightarrow> Inl (KeyError key)
      | Some v \<Rightarrow> Inr (to_dtype Float32 v))"

text \<open>
  \<^verbatim>\<open>ccrs.Globe(...)\<close>: the ellipse name has the default \<^verbatim>\<open>'WGS84'\<close> and both axes the
  default \<^verbatim>\<open>None\<close>; a keyword argument replaces a default.
\<close>

record Globe =
  ellipse :: "string option"
  semimajor_axis :: "np_float option"
  semiminor_axis :: "np_float option"

definition default_Globe :: Globe where
  "default_Globe = \<lparr>ellipse = Some ''WGS84'', semimajor_axis = None, semiminor_axis = None\<rparr>"

record LambertConformal =
  central_longitude :: np_float
  central_latitude :: np_float
  standard_parallels :: "np_float list"
  globe :: Globe

text \<open>
  \<^verbatim>\<open>ccrs.LambertConformal(...)\<close> hands its parameters to the PROJ library, which refuses
  some parameter sets (two standard parallels that are opposite, an axis that is not a
  positive finite number, and others); the constructor then raises \<^verbatim>\<open>CRSError\<close>. PROJ is
  no part of this repository: its test is a parameter, \<open>accepts\<close>, of the model.
\<close>

definition new_LambertConformal ::
  "(LambertConformal \<Rightarrow> bool) \<Rightarrow> np_float \<Rightarrow> np_float \<Rightarrow> np_float list \<Rightarrow> Globe
     \<Rightarrow> error + LambertConformal" where
  "new_LambertConformal accepts lon lat parallels g =
     (let p = \<lparr>central_longitude = lon, central_latitude = lat,
                standard_parallels = parallels, globe = g\<rparr>
      in if accepts p then Inr p else Inl CRSError)"

text \<open>The six reads, in the order of the source, and the call that builds \<^verbatim>\<open>projData\<close>.\<close>

definition projData ::
  "(LambertConformal \<Rightarrow> bool) \<Rightarrow> (string \<rightharpoonup> real) \<Rightarrow> error + LambertConformal" where
  "projData accepts HRRR_proj =
     (case loc_float32 HRRR_proj ''lat_0'' of Inl e \<Rightarrow> Inl e | Inr lat_0 \<Rightarrow>
      case loc_float32 HRRR_proj ''lat_1'' of Inl e \<Rightarrow> Inl e | Inr lat_1 \<Rightarrow>
      case loc_float32 HRRR_proj ''lat_2'' of Inl e \<Rightarrow> Inl e | Inr lat_2 \<Rightarrow>
      case loc_float32 HRRR_proj ''lon_0'' of Inl e \<Rightarrow> Inl e | Inr lon_0 \<Rightarrow>
      case loc_float32 HRRR_proj ''a'' of Inl e \<Rightarrow> Inl e | Inr a \<Rightarrow>
      case loc_float32 HRRR_proj ''b'' of Inl e \<Rightarrow> Inl e | Inr b \<Rightarrow>
        new_LambertConformal accepts lon_0 lat_0 [lat_1, lat_2]
          (default_Globe\<lparr>semimajor_axis := Some a, semiminor_axis := Some b\<rparr>))"

definition proj_params :: "string list" where
  "proj_params = [''lat_0'', ''lat_1'', ''lat_2'', ''lon_0'', ''a'', ''b'']"

text \<open>Every number a projection holds.\<close>

definition projection_numbers :: "LambertConformal \<Rightarrow> np_float list" where
  "projection_numbers p =
     [central_longitude p, central_latitude p] @ standard_parallels p
       @ (case semimajor_axis (globe p) of None \<Rightarrow> [] | Some a \<Rightarrow> [a])
       @ (case semiminor_axis (globe p) of None \<Rightarrow> [] | Some b \<Rightarrow> [b])"

section \<open>Unit conversion and reduction on the lazy array\<close>

text \<open>
  The data variable is a Dask array: an operation on it builds a description of the
  computation, and \<^verbatim>\<open>.compute()\<close> runs it (the notebook says so of \<^verbatim>\<open>min\<close> and \<^verbatim>\<open>max\<close>).
  A description is a term of \<open>lazy_array\<close> or \<open>lazy_scalar\<close>; running it is
  \<open>compute_array\<close> or \<open>compute\<close>. The stored variable is its \<^verbatim>\<open>units\<close> attribute and its
  values, as real numbers and in any order (the grid's shape plays no part in a global
  minimum). The unit conversions known to MetPy are a parameter, \<open>reg\<close>: for a source and a
  target unit, the function that converts a value, if there is one. A variable the dataset
  does not have, units that do not convert and a reduction of no values are the errors; the
  model gives the error of the run, not the statement at which Python reports it.
\<close>

record data_array =
  units :: string
  magnitude :: "real list"

type_synonym dataset = "string \<rightharpoonup> data_array"

type_synonym unit_registry = "string \<Rightarrow> string \<Rightarrow> (real \<Rightarrow> real) option"

datatype lazy_array =
    DataVar string
  | ConvertUnits lazy_array string

datatype lazy_scalar =
    Min_of lazy_array
  | Max_of lazy_array

fun compute_array :: "unit_registry \<Rightarrow> dataset \<Rightarrow> lazy_array \<Rightarrow> error + data_array" where
  "compute_array reg ds (DataVar name) =
     (case ds name of None \<Rightarrow> Inl (AttributeError name) | Some a \<Rightarrow> Inr a)"
| "compute_array reg ds (ConvertUnits g u) =
     (case compute_array reg ds g of
        Inl e \<Rightarrow> Inl e
      | Inr a \<Rightarrow>
          (case reg (units a) u of
             None \<Rightarrow> Inl DimensionalityError
           | Some f \<Rightarrow> Inr \<lparr>units = u, magnitude = map f (magnitude a)\<rparr>))"

fun compute :: "unit_registry \<Rightarrow> dataset \<Rightarrow> lazy_scalar \<Rightarrow> error + string \<times> real" where
  "compute reg ds (Min_of g) =
     (case compute_array reg ds g of
        Inl e \<Rightarrow> Inl e
      | Inr a \<Rightarrow>
          (case magnitude a of
             [] \<Rightarrow> Inl ValueError
           | x # xs \<Rightarrow> Inr (units a, fold min xs x)))"
| "compute reg ds (Max_of g) =
     (case compute_array reg ds g of
        Inl e \<Rightarrow> Inl e
      | Inr a \<Rightarrow>
          (case magnitude a of
             [] \<Rightarrow> Inl ValueError
           | x # xs \<Rightarrow> Inr (units a, fold max xs x)))"

fun conversions :: "lazy_array \<Rightarrow> nat" where
  "conversions (DataVar name) = 0"
| "conversions (ConvertUnits g u) = Suc (conversions g)"

text \<open>
  \<^verbatim>\<open>airTemp = ds.TMP\<close>, then \<^verbatim>\<open>airTemp = airTemp.metpy.convert_units('degC')\<close>, then
  \<^verbatim>\<open>minTemp = airTemp.min().compute()\<close> and \<^verbatim>\<open>maxTemp = airTemp.max().compute()\<close>.
\<close>

definition airTemp :: lazy_array where
  "airTemp = ConvertUnits (DataVar ''TMP'') ''degC''"

definition minTemp :: "unit_registry \<Rightarrow> dataset \<Rightarrow> error + string \<times> real" where
  "minTemp reg ds = compute reg ds (Min_of airTemp)"

definition maxTemp :: "unit_registry \<Rightarrow> dataset \<Rightarrow> error + string \<times> real" where
  "maxTemp reg ds = compute reg ds (Max_of airTemp)"

section \<open>The contour levels\<close>

text \<open>
  \<^verbatim>\<open>fint = np.arange(np.floor(minTemp.values), np.ceil(maxTemp.values) + 2, 2)\<close>.
  The two scalars are numpy floats, and \<open>t\<close> is the floating-point type in which numpy
  does the arithmetic on them: under the promotion rules of NumPy 2 the type of the
  array's values, under the older rules, where a numpy scalar plus a Python \<^verbatim>\<open>int\<close> is a
  \<^verbatim>\<open>float64\<close>, the type \<open>Float64\<close>. A scalar is given by the number it stands for: floor
  and ceiling are exact, so it makes no difference to them whether that number is written
  with all the digits of the float or not.

  \<^verbatim>\<open>np.floor\<close> and \<^verbatim>\<open>np.ceil\<close> leave an infinity or a NaN as it is; the sum with 2 is
  rounded to the type.
\<close>

fun np_floor :: "np_float \<Rightarrow> np_float" where
  "np_floor (Finite a) = Finite (of_int \<lfloor>a\<rfloor>)"
| "np_floor PosInf = PosInf"
| "np_floor NegInf = NegInf"
| "np_floor NaN = NaN"

fun np_ceil :: "np_float \<Rightarrow> np_float" where
  "np_ceil (Finite a) = Finite (of_int \<lceil>a\<rceil>)"
| "np_ceil PosInf = PosInf"
| "np_ceil NegInf = NegInf"
| "np_ceil NaN = NaN"

fun np_add :: "dtype \<Rightarrow> np_float \<Rightarrow> real \<Rightarrow> np_float" where
  "np_add t (Finite a) y = to_dtype t (a + y)"
| "np_add t PosInf y = PosInf"
| "np_add t NegInf y = NegInf"
| "np_add t NaN y = NaN"

text \<open>
  \<^verbatim>\<open>np.arange(start, stop, 2)\<close> on two float scalars, as numpy computes it.

  \<^item> The length is the ceiling of \<open>(stop - start) / 2\<close>, the difference being a float of
    the type. A length that is not a number or lies outside the signed 64-bit integers is
    a \<^verbatim>\<open>ValueError\<close>, and so are an infinite or NaN \<open>start\<close> or \<open>stop\<close>. A length that is
    not positive gives the empty array.

  \<^item> The array is of type \<^verbatim>\<open>float64\<close>. An array of \<open>2^60\<close> entries or more has more bytes
    than a signed 64-bit size counts, a \<^verbatim>\<open>ValueError\<close> (the model takes the length \<open>2^63\<close>
    with these: there the conversion to a 64-bit integer is not defined by C). An array of
    more entries than the machine can allocate is a \<^verbatim>\<open>MemoryError\<close>; that number of
    entries is a parameter, \<open>capacity\<close>, of the model.

  \<^item> The first entry is \<open>start\<close>, the second the float \<open>start + 2\<close> of the type, and the
    entry of index \<open>i \<ge> 2\<close> is \<open>start + i * delta\<close> in \<^verbatim>\<open>float64\<close>, each operation rounded,
    where \<open>delta\<close> is the second entry minus the first (numpy's documentation: the step
    that fills the array is \<^verbatim>\<open>dtype(start + step) - dtype(start)\<close>, not \<^verbatim>\<open>step\<close>).
\<close>

definition arange_entry :: "dtype \<Rightarrow> real \<Rightarrow> nat \<Rightarrow> real" where
  "arange_entry t start i =
     (let next = round_nearest t (start + 2);
          delta = round_nearest Float64 (next - start)
      in if i = 0 then start
         else if i = 1 then next
         else round_nearest Float64
                (start + round_nearest Float64 (round_nearest Float64 (real i) * delta)))"

fun np_arange :: "nat \<Rightarrow> dtype \<Rightarrow> np_float \<Rightarrow> np_float \<Rightarrow> error + real list" where
  "np_arange capacity t (Finite start) (Finite stop) =
     (case to_dtype t (stop - start) of
        Finite d \<Rightarrow>
          (let len = \<lceil>d / 2\<rceil>
           in if len < - (2 ^ 63) \<or> 2 ^ 63 < len then Inl ValueError
              else if 2 ^ 60 \<le> len then Inl ValueError
              else if int capacity < len then Inl MemoryError
              else Inr (map (arange_entry t start) [0 ..< nat len]))
      | _ \<Rightarrow> Inl ValueError)"
| "np_arange capacity t _ _ = Inl ValueError"

definition fint :: "nat \<Rightarrow> dtype \<Rightarrow> np_float \<Rightarrow> np_float \<Rightarrow> error + real list" where
  "fint capacity t minTemp_values maxTemp_values =
     np_arange capacity t (np_floor minTemp_values) (np_add t (np_ceil maxTemp_values) 2)"

text \<open>
  The number of levels when nothing is rounded, and the scalars for which nothing is
  rounded: those whose floor and ceiling, moved by 2 away from zero, stay below
  \<open>2^(p - 1)\<close> in absolute value (1024 for \<^verbatim>\<open>float16\<close>, 8388608 for \<^verbatim>\<open>float32\<close>,
  \<open>2^52\<close> for \<^verbatim>\<open>float64\<close>).
\<close>

definition n_levels :: "real \<Rightarrow> real \<Rightarrow> nat" where
  "n_levels mn mx = nat \<lceil>(of_int \<lceil>mx\<rceil> + 2 - of_int \<lfloor>mn\<rfloor>) / (2::real)\<rceil>"

definition in_exact_range :: "dtype \<Rightarrow> real \<Rightarrow> real \<Rightarrow> bool" where
  "in_exact_range t mn mx \<longleftrightarrow>
     \<bar>\<lfloor>mn\<rfloor>\<bar> + 2 < 2 ^ (precision t - 1) \<and> \<bar>\<lceil>mx\<rceil>\<bar> + 2 < 2 ^ (precision t - 1)"

section \<open>Example inputs\<close>

text \<open>
  A metadata frame with the six parameters (the semi-axes are the 6371.229 km of the
  notebook's note, in metres) and one whose numbers are not 32-bit floats: the 64-bit
  floats of the literals 6371229.3, 262.3 and 38.1; a test of
  parameter sets that refuses what is not finite, latitudes beyond 90 degrees, opposite
  standard parallels and axes that are not positive; a stored variable of three
  temperatures in kelvin; and a unit registry that knows the conversion from kelvin to
  degrees Celsius.
\<close>

definition example_projparams :: "string \<rightharpoonup> real" where
  "example_projparams =
     [''a'' \<mapsto> 6371229, ''b'' \<mapsto> 6371229, ''lon_0'' \<mapsto> 262.5,
      ''lat_0'' \<mapsto> 38.5, ''lat_1'' \<mapsto> 38.5, ''lat_2'' \<mapsto> 38.5]"

definition example_decimal_projparams :: "string \<rightharpoonup> real" where
  "example_decimal_projparams =
     [''a'' \<mapsto> round_nearest Float64 6371229.3, ''b'' \<mapsto> round_nearest Float64 6371229.3,
      ''lon_0'' \<mapsto> round_nearest Float64 262.3, ''lat_0'' \<mapsto> round_nearest Float64 38.1,
      ''lat_1'' \<mapsto> round_nearest Float64 38.1, ''lat_2'' \<mapsto> round_nearest Float64 38.1]"

fun finite_value :: "np_float \<Rightarrow> real option" where
  "finite_value (Finite r) = Some r"
| "finite_value PosInf = None"
| "finite_value NegInf = None"
| "finite_value NaN = None"

definition example_accepts :: "LambertConformal \<Rightarrow> bool" where
  "example_accepts p =
     (case map finite_value (projection_numbers p) of
        [Some lon, Some lat, Some lat1, Some lat2, Some a, Some b] \<Rightarrow>
          \<bar>lat\<bar> \<le> 90 \<and> \<bar>lat1\<bar> \<le> 90 \<and> \<bar>lat2\<bar> \<le> 90 \<and> lat1 + lat2 \<noteq> 0 \<and> 0 < b \<and> b \<le> a
      | _ \<Rightarrow> False)"

definition example_dataset :: dataset where
  "example_dataset = [''TMP'' \<mapsto> \<lparr>units = ''K'', magnitude = [273.15, 283.15, 263.15]\<rparr>]"

definition example_registry :: unit_registry where
  "example_registry src dst =
     (if src = ''K'' \<and> dst = ''degC'' then Some (\<lambda>x. x - 273.15)
      else if src = dst then Some (\<lambda>x. x)
      else None)"

section \<open>Properties of the string helpers\<close>

lemma py_split_first:
  "\<exists>ws. py_split sep s = takeWhile (\<lambda>c. c \<noteq> sep) s # ws"
  by (induction s) (auto split: list.splits)

lemma major_version_leading:
  "major_version v = py_int (takeWhile (\<lambda>c. c \<noteq> CHR ''.'') v)"
proof -
  obtain ws where "py_split CHR ''.'' v = takeWhile (\<lambda>c. c \<noteq> CHR ''.'') v # ws"
    using py_split_first by blast
  then show ?thesis
    by (simp add: major_version_def py_item0_def)
qed

lemma py_int_error: "py_int s = Inl e \<Longrightarrow> e = ValueError"
  by (auto simp: py_int_def Let_def split: if_splits)

lemma digits_body_first: "digits_body b \<Longrightarrow> \<exists>c cs. b = c # cs \<and> is_digit c"
  by (cases b rule: digits_body.cases) auto

lemma set_strip_space: "set (strip_space s) \<subseteq> set s"
proof -
  have "set (strip_space s) \<subseteq> set (dropWhile is_space s)"
    unfolding strip_space_def using set_dropWhileD by fastforce
  also have "\<dots> \<subseteq> set s"
    using set_dropWhileD by fastforce
  finally show ?thesis .
qed

text \<open>A string without any decimal digit is never an integer literal.\<close>

lemma py_int_needs_digit:
  assumes "filter is_digit s = []"
  shows "py_int s = Inl ValueError"
proof -
  define t where "t = strip_space s"
  define body where "body = (case t of [] \<Rightarrow> []
                  | c # cs \<Rightarrow> if c = CHR ''-'' \<or> c = CHR ''+'' then cs else t)"
  have "set body \<subseteq> set t"
    by (auto simp: body_def split: list.splits)
  then have sub: "set body \<subseteq> set s"
    using set_strip_space [of s] by (auto simp: t_def)
  have "\<not> digits_body body"
  proof
    assume "digits_body body"
    then obtain c cs where "body = c # cs" "is_digit c"
      using digits_body_first by blast
    then have "c \<in> set (filter is_digit s)"
      using sub by auto
    with assms show False
      by simp
  qed
  then show ?thesis
    unfolding py_int_def Let_def body_def t_def by simp
qed

section \<open>The version check\<close>

text \<open>
  C1 (as amended). Whenever the leading dot-separated component of the version string
  parses as an integer \<open>n\<close>, both stores are opened, both through the same adapter, and the
  adapter is the version-3 one exactly when \<open>n = 3\<close> and the legacy one exactly when
  \<open>n \<noteq> 3\<close>. The test of the source is \<^verbatim>\<open>major_version == 3\<close>, so a major version of 4 or
  more takes the legacy branch.
\<close>

theorem resolver_v3_iff_major_equals_3:
  assumes "major_version v = Inr n"
  shows "\<exists>f1 f2. open_stores v u1 u2 = Inr (f1, f2) \<and> branch_of f1 = branch_of f2
           \<and> (branch_of f1 = V3 \<longleftrightarrow> n = 3) \<and> (branch_of f1 = Legacy \<longleftrightarrow> n \<noteq> 3)"
  using assms by (simp add: open_stores_def Let_def)

theorem resolver_v3_iff_major_equals_3_witness:
  "major_version ''3.0.8'' = Inr 3 \<and>
   (\<exists>f1 f2. open_stores ''3.0.8'' ''s3://a'' ''s3://b'' = Inr (f1, f2)
      \<and> branch_of f1 = branch_of f2
      \<and> (branch_of f1 = V3 \<longleftrightarrow> (3::int) = 3) \<and> (branch_of f1 = Legacy \<longleftrightarrow> (3::int) \<noteq> 3))"
proof -
  have h: "major_version ''3.0.8'' = Inr 3"
    by code_simp
  show ?thesis
    by (rule conjI [OF h resolver_v3_iff_major_equals_3 [OF h]])
qed

text \<open>
  The claim as the specification words it (the version-3 branch for every leading integer
  \<open>\<ge> 3\<close>, the legacy branch only below 3) fails at the version string \<^verbatim>\<open>4.0.0\<close>: the
  leading integer is 4, and the two stores are legacy \<^verbatim>\<open>S3Map\<close> objects on a synchronous
  file system.
\<close>

theorem major_4_takes_legacy_branch:
  "major_version ''4.0.0'' = Inr 4 \<and> (3::int) \<le> 4 \<and>
   open_stores ''4.0.0'' ''s3://a'' ''s3://b'' =
     Inr (S3Map ''s3://a'' \<lparr>anon = True, asynchronous = False\<rparr>,
          S3Map ''s3://b'' \<lparr>anon = True, asynchronous = False\<rparr>) \<and>
   branch_of (S3Map ''s3://a'' \<lparr>anon = True, asynchronous = False\<rparr>) = Legacy"
  by code_simp

text \<open>
  C4. When the leading dot-separated component of the version string is not an integer
  literal (\<^verbatim>\<open>int\<close> returns no integer for it), and in particular when it has no decimal
  digit at all, opening the stores raises \<^verbatim>\<open>ValueError\<close>: no store is built, through
  either adapter. The empty version string and \<^verbatim>\<open>3rc1.0\<close> are the witnesses.
\<close>

theorem version_without_leading_integer_fails:
  assumes "(\<nexists>n. py_int (takeWhile (\<lambda>c. c \<noteq> CHR ''.'') v) = Inr n)
           \<or> filter is_digit (takeWhile (\<lambda>c. c \<noteq> CHR ''.'') v) = []"
  shows "open_stores v u1 u2 = Inl ValueError"
proof -
  have "\<nexists>n. major_version v = Inr n"
    using assms py_int_needs_digit [of "takeWhile (\<lambda>c. c \<noteq> CHR ''.'') v"]
    by (auto simp: major_version_leading)
  then obtain e where e: "major_version v = Inl e"
    by (cases "major_version v") auto
  then have "e = ValueError"
    by (simp add: major_version_leading py_int_error)
  with e show ?thesis
    by (simp add: open_stores_def)
qed

theorem version_without_leading_integer_fails_witness:
  "(\<nexists>n. py_int (takeWhile (\<lambda>c. c \<noteq> CHR ''.'') []) = Inr n) \<and>
   filter is_digit (takeWhile (\<lambda>c. c \<noteq> CHR ''.'') []) = [] \<and>
   open_stores [] ''s3://a'' ''s3://b'' = Inl ValueError \<and>
   (\<nexists>n. py_int (takeWhile (\<lambda>c. c \<noteq> CHR ''.'') ''3rc1.0'') = Inr n) \<and>
   open_stores ''3rc1.0'' ''s3://a'' ''s3://b'' = Inl ValueError"
proof -
  have "py_int (takeWhile (\<lambda>c. c \<noteq> CHR ''.'') []) = Inl ValueError"
    by code_simp
  then have h: "\<nexists>n. py_int (takeWhile (\<lambda>c. c \<noteq> CHR ''.'') []) = Inr n"
    by simp
  have d: "filter is_digit (takeWhile (\<lambda>c. c \<noteq> CHR ''.'') []) = []"
    by simp
  have "py_int (takeWhile (\<lambda>c. c \<noteq> CHR ''.'') ''3rc1.0'') = Inl ValueError"
    by code_simp
  then have r: "\<nexists>n. py_int (takeWhile (\<lambda>c. c \<noteq> CHR ''.'') ''3rc1.0'') = Inr n"
    by simp
  show ?thesis
    by (intro conjI h d r
          version_without_leading_integer_fails [OF disjI1 [OF h]]
          version_without_leading_integer_fails [OF disjI1 [OF r]])
qed

section \<open>The object references\<close>







section \<open>The two branches\<close>

text \<open>
  C6. When the parsed major version is 3, a reference that begins with \<^verbatim>\<open>s3://\<close> is
  handed to the store without these five characters: the path of each
  \<^verbatim>\<open>FsspecStore\<close> is the rest of its reference.
\<close>

theorem v3_strips_s3_prefix:
  assumes "major_version v = Inr 3"
  shows "open_stores v (''s3://'' @ r1) (''s3://'' @ r2) =
           Inr (FsspecStore \<lparr>anon = True, asynchronous = True\<rparr> r1,
                FsspecStore \<lparr>anon = True, asynchronous = True\<rparr> r2)
         \<and> length ''s3://'' = 5"
  using assms by (simp add: open_stores_def Let_def)

theorem v3_strips_s3_prefix_witness:
  "major_version ''3.1.2'' = Inr 3 \<and>
   (open_stores ''3.1.2'' (''s3://'' @ ''hrrrzarr/sfc/x/TMP/x'') (''s3://'' @ ''hrrrzarr/sfc/x/TMP'') =
           Inr (FsspecStore \<lparr>anon = True, asynchronous = True\<rparr> ''hrrrzarr/sfc/x/TMP/x'',
                FsspecStore \<lparr>anon = True, asynchronous = True\<rparr> ''hrrrzarr/sfc/x/TMP'')
         \<and> length ''s3://'' = 5)"
proof -
  have h: "major_version ''3.1.2'' = Inr 3"
    by code_simp
  show ?thesis
    by (rule conjI [OF h v3_strips_s3_prefix [OF h]])
qed

text \<open>
  C7. For every version string whose leading component parses, whichever branch is
  taken, both stores are opened, on one and the same file-system object, and that object
  was made with \<^verbatim>\<open>anon=True\<close>. (The two branches differ in \<^verbatim>\<open>asynchronous\<close> only.)
\<close>

theorem both_branches_anonymous:
  assumes "major_version v = Inr n"
  shows "\<exists>f1 f2. open_stores v u1 u2 = Inr (f1, f2)
           \<and> anon (store_fs f1) \<and> anon (store_fs f2) \<and> store_fs f1 = store_fs f2"
  using assms by (simp add: open_stores_def Let_def)

theorem both_branches_anonymous_witness:
  "(major_version ''3.0.8'' = Inr 3 \<and>
    (\<exists>f1 f2. open_stores ''3.0.8'' ''s3://a'' ''s3://b'' = Inr (f1, f2)
           \<and> anon (store_fs f1) \<and> anon (store_fs f2) \<and> store_fs f1 = store_fs f2)) \<and>
   (major_version ''2.18.3'' = Inr 2 \<and>
    (\<exists>f1 f2. open_stores ''2.18.3'' ''s3://a'' ''s3://b'' = Inr (f1, f2)
           \<and> anon (store_fs f1) \<and> anon (store_fs f2) \<and> store_fs f1 = store_fs f2))"
proof -
  have h3: "major_version ''3.0.8'' = Inr 3"
    by code_simp
  have h2: "major_version ''2.18.3'' = Inr 2"
    by code_simp
  show ?thesis
    by (rule conjI [OF conjI [OF h3 both_branches_anonymous [OF h3]]
                       conjI [OF h2 both_branches_anonymous [OF h2]]])
qed

section \<open>Properties of the rounding\<close>

lemma pow2_powr: "pow2 k = 2 powr (of_int k)"
proof (cases "0 \<le> k")
  case True
  then have "2 powr real_of_int k = 2 powr real (nat k)"
    by simp
  also have "\<dots> = 2 ^ nat k"
    by (simp add: powr_realpow)
  finally show ?thesis
    using True by (simp add: pow2_def)
next
  case False
  then have "2 powr real_of_int k = 2 powr (- real (nat (- k)))"
    by simp
  also have "\<dots> = 1 / 2 ^ nat (- k)"
    by (simp add: powr_minus powr_realpow divide_inverse)
  finally show ?thesis
    using False by (simp add: pow2_def)
qed

lemma pow2_pos: "0 < pow2 k"
  by (simp add: pow2_powr)

lemma pow2_add: "pow2 (a + b) = pow2 a * pow2 b"
  by (simp add: pow2_powr powr_add)

lemma pow2_less_iff: "pow2 a < pow2 b \<longleftrightarrow> a < b"
  by (simp add: pow2_powr)

lemma pow2_le_iff: "pow2 a \<le> pow2 b \<longleftrightarrow> a \<le> b"
  by (simp add: pow2_powr)

lemma pow2_nat: "pow2 (int n) = 2 ^ n"
  by (simp add: pow2_def)

lemma binade_bounds:
  assumes "x \<noteq> 0"
  shows "pow2 (binade x) \<le> \<bar>x\<bar> \<and> \<bar>x\<bar> < pow2 (binade x + 1)"
proof (cases "1 \<le> \<bar>x\<bar>")
  case True
  define n where "n = \<lfloor>\<bar>x\<bar>\<rfloor>"
  have n1: "1 \<le> n"
    using True by (simp add: n_def le_floor_iff)
  then have npos: "0 < n"
    by simp
  have b: "2 ^ nat (bitlen n - 1) \<le> n" "n < 2 ^ nat (bitlen n)"
    using bitlen_bounds [OF npos] by simp_all
  have bl: "1 \<le> bitlen n"
    using npos by (simp add: bitlen_alt_def)
  have e: "binade x = bitlen n - 1"
    using True by (simp add: binade_def n_def)
  have "pow2 (bitlen n - 1) = 2 ^ nat (bitlen n - 1)"
    using bl by (simp add: pow2_def)
  also have "\<dots> \<le> real_of_int n"
    using b(1) by (metis of_int_le_iff of_int_numeral of_int_power)
  also have "\<dots> \<le> \<bar>x\<bar>"
    by (simp add: n_def)
  finally have lo: "pow2 (binade x) \<le> \<bar>x\<bar>"
    by (simp add: e)
  have "n + 1 \<le> 2 ^ nat (bitlen n)"
    using b(2) by simp
  then have "real_of_int (n + 1) \<le> 2 ^ nat (bitlen n)"
    by (metis of_int_le_iff of_int_numeral of_int_power)
  moreover have "\<bar>x\<bar> < real_of_int (n + 1)"
    by (simp add: n_def)
  ultimately have "\<bar>x\<bar> < 2 ^ nat (bitlen n)"
    by linarith
  moreover have "pow2 (binade x + 1) = 2 ^ nat (bitlen n)"
    using bl by (simp add: e pow2_def)
  ultimately show ?thesis
    using lo by simp
next
  case False
  define y where "y = 1 / \<bar>x\<bar>"
  define m where "m = \<lceil>y\<rceil> - 1"
  define k where "k = bitlen m"
  have xpos: "0 < \<bar>x\<bar>" and xlt: "\<bar>x\<bar> < 1"
    using assms False by simp_all
  have y1: "1 < y"
    using xpos xlt by (simp add: y_def)
  have m1: "1 \<le> m"
    using y1 by (simp add: m_def less_ceiling_iff)
  then have mpos: "0 < m"
    by simp
  have my: "real_of_int m < y" "y \<le> real_of_int m + 1"
    using ceiling_correct [of y] by (simp_all add: m_def)
  have b: "2 ^ nat (k - 1) \<le> m" "m < 2 ^ nat k"
    using bitlen_bounds [OF mpos] by (simp_all add: k_def)
  have k1: "1 \<le> k"
    using mpos by (simp add: k_def bitlen_alt_def)
  have e: "binade x = - k"
    using False by (simp add: binade_def k_def m_def y_def)
  have "real_of_int (m + 1) \<le> 2 ^ nat k"
    using b(2) by (metis of_int_le_iff of_int_numeral of_int_power zless_imp_add1_zle)
  then have yhi: "y \<le> 2 ^ nat k"
    using my(2) by simp
  have "(2::real) ^ nat (k - 1) \<le> real_of_int m"
    using b(1) by (metis of_int_le_iff of_int_numeral of_int_power)
  then have ylo: "2 ^ nat (k - 1) < y"
    using my(1) by linarith
  have ypos: "0 < y"
    using y1 by simp
  have xy: "\<bar>x\<bar> = 1 / y"
    using xpos by (simp add: y_def)
  have "1 / 2 ^ nat k \<le> 1 / y"
    using yhi ypos by (simp add: frac_le)
  moreover have "pow2 (- k) = 1 / 2 ^ nat k"
    using k1 by (simp add: pow2_def)
  ultimately have lo: "pow2 (binade x) \<le> \<bar>x\<bar>"
    by (simp add: e xy)
  have "1 / y < 1 / 2 ^ nat (k - 1)"
    using ylo by (simp add: frac_less2)
  moreover have "pow2 (- k + 1) = 1 / 2 ^ nat (k - 1)"
    using k1 by (cases "k = 1") (simp_all add: pow2_def)
  ultimately have "\<bar>x\<bar> < pow2 (binade x + 1)"
    by (simp add: e xy)
  with lo show ?thesis
    by simp
qed

lemma round_half_even_of_int: "round_half_even (of_int m) = m"
  by (simp add: round_half_even_def)

lemma round_half_even_close: "\<bar>real_of_int (round_half_even t) - t\<bar> \<le> 1 / 2"
  unfolding round_half_even_def Let_def
  by (auto simp: abs_if) linarith+

lemma emax_pos: "1 \<le> emax t"
  by (cases t) simp_all

lemma precision_le_emax: "int (precision t) \<le> emax t + 1"
  by (cases t) simp_all

lemma real_abs_less_power:
  assumes "\<bar>n\<bar> < (2::int) ^ k"
  shows "\<bar>real_of_int n\<bar> < 2 ^ k"
  using assms by (metis of_int_abs of_int_less_iff of_int_numeral of_int_power)

lemma round_nearest_of_int:
  assumes "\<bar>n\<bar> < 2 ^ precision t"
  shows "round_nearest t (of_int n) = of_int n"
proof (cases "n = 0")
  case True
  then show ?thesis
    by (simp add: round_nearest_def)
next
  case False
  define x where "x = real_of_int n"
  define e where "e = binade x"
  have x0: "x \<noteq> 0"
    using False by (simp add: x_def)
  have x1: "1 \<le> \<bar>x\<bar>"
    using False by (simp add: x_def)
  have xp: "\<bar>x\<bar> < pow2 (int (precision t))"
    using real_abs_less_power [OF assms] by (simp add: x_def pow2_nat)
  from binade_bounds [OF x0] have bb: "pow2 e \<le> \<bar>x\<bar>" "\<bar>x\<bar> < pow2 (e + 1)"
    by (simp_all add: e_def)
  have "pow2 0 < pow2 (e + 1)"
    using x1 bb(2) by (simp add: pow2_def)
  then have e0: "0 \<le> e"
    by (simp add: pow2_less_iff)
  have "pow2 e < pow2 (int (precision t))"
    using bb(1) xp by linarith
  then have ep: "e < int (precision t)"
    by (simp add: pow2_less_iff)
  have mx: "max e (1 - emax t) = e"
    using e0 emax_pos [of t] by simp
  define j where "j = nat (int (precision t) - 1 - e)"
  have ulp: "pow2 (e - int (precision t) + 1) = 1 / 2 ^ j"
  proof (cases "e - int (precision t) + 1 = 0")
    case True
    then show ?thesis
      by (simp add: pow2_def j_def)
  next
    case False
    then have "e - int (precision t) + 1 < 0"
      using ep by simp
    then show ?thesis
      by (simp add: pow2_def j_def)
  qed
  have "x / (1 / 2 ^ j) = real_of_int (n * 2 ^ j)"
    by (simp add: x_def)
  then have "round_half_even (x / (1 / 2 ^ j)) = n * 2 ^ j"
    by (simp only: round_half_even_of_int)
  then have "round_nearest t x = real_of_int (n * 2 ^ j) * (1 / 2 ^ j)"
    using x0 by (simp add: round_nearest_def ulp_def Let_def e_def [symmetric] mx ulp)
  also have "\<dots> = x"
    by (simp add: x_def)
  finally show ?thesis
    by (simp add: x_def)
qed

lemma to_dtype_of_int:
  assumes "\<bar>n\<bar> < 2 ^ precision t"
  shows "to_dtype t (of_int n) = Finite (of_int n)"
proof -
  have "\<bar>real_of_int n\<bar> < 2 ^ precision t"
    using assms by (metis of_int_abs of_int_less_iff of_int_numeral of_int_power)
  also have "\<dots> = pow2 (int (precision t))"
    by (simp add: pow2_nat)
  also have "\<dots> \<le> pow2 (emax t + 1)"
    using precision_le_emax [of t] by (simp add: pow2_le_iff)
  finally show ?thesis
    by (simp add: to_dtype_def round_nearest_of_int [OF assms])
qed

lemma precision_bounds: "1 \<le> precision t \<and> precision t \<le> 53"
  by (cases t) simp_all

lemma precision_pred_le: "precision t - 1 \<le> 53"
  by (cases t) simp_all

lemma power_precision: "(2::int) ^ precision t = 2 * 2 ^ (precision t - 1)"
proof -
  have "precision t = Suc (precision t - 1)"
    using precision_bounds [of t] by simp
  then show ?thesis
    by (metis power_Suc)
qed

lemma round_half_even_ge:
  assumes "real_of_int N \<le> t"
  shows "N \<le> round_half_even t"
proof -
  have "N \<le> \<lfloor>t\<rfloor>"
    using assms by (simp add: le_floor_iff)
  then show ?thesis
    by (simp add: round_half_even_def Let_def)
qed

lemma round_half_even_le:
  assumes "t \<le> real_of_int N"
  shows "round_half_even t \<le> N"
proof (cases "t = real_of_int \<lfloor>t\<rfloor>")
  case True
  then have "round_half_even t = \<lfloor>t\<rfloor>"
    by (simp add: round_half_even_def Let_def)
  moreover have "\<lfloor>t\<rfloor> \<le> N"
    using assms by (metis floor_mono floor_of_int)
  ultimately show ?thesis
    by simp
next
  case False
  then have "real_of_int \<lfloor>t\<rfloor> < t"
    using of_int_floor_le [of t] by linarith
  then have "real_of_int \<lfloor>t\<rfloor> < real_of_int N"
    using assms by linarith
  then have "\<lfloor>t\<rfloor> + 1 \<le> N"
    by simp
  then show ?thesis
    by (simp add: round_half_even_def Let_def)
qed

lemma round_half_even_abs_ge:
  assumes "real_of_int N \<le> \<bar>t\<bar>"
  shows "N \<le> \<bar>round_half_even t\<bar>"
proof (cases "0 \<le> t")
  case True
  then have "N \<le> round_half_even t"
    using assms by (intro round_half_even_ge) simp
  then show ?thesis
    by linarith
next
  case False
  then have "t \<le> real_of_int (- N)"
    using assms by simp
  then have "round_half_even t \<le> - N"
    by (rule round_half_even_le)
  then show ?thesis
    by linarith
qed

lemma round_half_even_abs_le:
  assumes "\<bar>t\<bar> \<le> real_of_int N"
  shows "\<bar>round_half_even t\<bar> \<le> N"
proof -
  have a: "real_of_int (- N) \<le> t" and b: "t \<le> real_of_int N"
    using assms by (simp_all add: abs_le_iff)
  have "- N \<le> round_half_even t"
    using a by (rule round_half_even_ge)
  moreover have "round_half_even t \<le> N"
    using b by (rule round_half_even_le)
  ultimately show ?thesis
    by linarith
qed

lemma pow2_Suc: "pow2 (k + 1) = 2 * pow2 k"
proof -
  have "pow2 (k + 1) = pow2 k * pow2 1"
    by (rule pow2_add)
  also have "pow2 1 = 2"
    by (simp add: pow2_def)
  finally show ?thesis
    by simp
qed

lemma pow2_diff: "pow2 (a - b) = pow2 a / pow2 b"
  by (simp add: pow2_powr powr_diff)

lemma round_nearest_is_float:
  assumes nov: "\<bar>round_nearest t x\<bar> < pow2 (emax t + 1)"
  shows "is_float t (round_nearest t x)"
proof (cases "x = 0")
  case True
  have "(0::real) = real_of_int 0 * pow2 (2 - emax t - int (precision t))"
    by simp
  moreover have "\<bar>0::int\<bar> < 2 ^ precision t"
    by simp
  moreover have "2 - emax t - int (precision t) \<le> emax t - int (precision t) + 1"
    using emax_pos [of t] by simp
  ultimately have "is_float t 0"
    unfolding is_float_def by blast
  with True show ?thesis
    by (simp add: round_nearest_def)
next
  case False
  define p where "p = int (precision t)"
  define e where "e = max (binade x) (1 - emax t)"
  define k where "k = e - p + 1"
  define M where "M = round_half_even (x / pow2 k)"
  define r where "r = round_nearest t x"
  have r: "r = real_of_int M * pow2 k"
    using False by (simp add: r_def round_nearest_def ulp_def Let_def M_def k_def e_def p_def)
  have p1: "1 \<le> p"
    using precision_bounds [of t] by (simp add: p_def)
  have klo: "2 - emax t - p \<le> k"
    by (simp add: k_def e_def)
  from binade_bounds [OF False] have bb: "pow2 (binade x) \<le> \<bar>x\<bar>" "\<bar>x\<bar> < pow2 (binade x + 1)"
    by simp_all
  have "pow2 (binade x + 1) \<le> pow2 (e + 1)"
    by (simp add: pow2_le_iff e_def)
  then have "\<bar>x\<bar> < pow2 (e + 1)"
    using bb(2) by linarith
  then have "\<bar>x\<bar> / pow2 k < pow2 (e + 1) / pow2 k"
    using pow2_pos [of k] by (simp add: divide_strict_right_mono)
  also have "pow2 (e + 1) / pow2 k = pow2 p"
    by (simp add: pow2_diff [symmetric] k_def)
  finally have tlt: "\<bar>x / pow2 k\<bar> < pow2 p"
    using pow2_pos [of k] by (simp add: abs_divide)
  have pp: "pow2 p = real_of_int (2 ^ precision t)"
    by (simp add: p_def pow2_nat)
  have Mle: "\<bar>M\<bar> \<le> 2 ^ precision t"
    unfolding M_def using tlt pp by (intro round_half_even_abs_le) simp
  have ehi: "e \<le> emax t"
  proof (cases "binade x \<le> 1 - emax t")
    case True
    then show ?thesis
      using emax_pos [of t] by (simp add: e_def)
  next
    case False
    then have eb: "e = binade x"
      by (simp add: e_def)
    have "pow2 (p - 1) = pow2 e / pow2 k"
      by (simp add: pow2_diff [symmetric] k_def)
    also have "\<dots> \<le> \<bar>x\<bar> / pow2 k"
      using bb(1) pow2_pos [of k] by (simp add: eb divide_right_mono)
    finally have "pow2 (p - 1) \<le> \<bar>x / pow2 k\<bar>"
      using pow2_pos [of k] by (simp add: abs_divide)
    moreover have "pow2 (p - 1) = real_of_int (2 ^ (precision t - 1))"
      using p1 by (simp add: p_def pow2_def nat_diff_distrib)
    ultimately have "2 ^ (precision t - 1) \<le> \<bar>M\<bar>"
      unfolding M_def by (intro round_half_even_abs_ge) simp
    then have "real_of_int (2 ^ (precision t - 1)) \<le> \<bar>real_of_int M\<bar>"
      by (metis of_int_abs of_int_le_iff)
    then have "pow2 (p - 1) * pow2 k \<le> \<bar>real_of_int M\<bar> * pow2 k"
      using pow2_pos [of k] \<open>pow2 (p - 1) = real_of_int (2 ^ (precision t - 1))\<close>
      by (simp add: mult_right_mono)
    also have "\<dots> = \<bar>r\<bar>"
      using pow2_pos [of k] by (simp add: r abs_mult)
    finally have "pow2 e \<le> \<bar>r\<bar>"
      by (simp add: pow2_add [symmetric] k_def)
    then have "pow2 e < pow2 (emax t + 1)"
      using nov by (simp add: r_def)
    then show ?thesis
      by (simp add: pow2_less_iff)
  qed
  show ?thesis
  proof (cases "\<bar>M\<bar> < 2 ^ precision t")
    case True
    moreover have "k \<le> emax t - int (precision t) + 1"
      using ehi by (simp add: k_def p_def)
    moreover have "2 - emax t - int (precision t) \<le> k"
      using klo by (simp add: p_def)
    ultimately have "is_float t r"
      unfolding is_float_def using r by blast
    then show ?thesis
      by (simp add: r_def)
  next
    case False
    with Mle have Meq: "\<bar>M\<bar> = 2 ^ precision t"
      by simp
    have "\<bar>real_of_int M\<bar> = real_of_int (2 ^ precision t)"
      using Meq by (metis of_int_abs)
    then have "\<bar>r\<bar> = pow2 p * pow2 k"
      using pow2_pos [of k] by (simp add: r abs_mult pp)
    also have "\<dots> = pow2 (e + 1)"
      by (simp add: pow2_add [symmetric] k_def)
    finally have "pow2 (e + 1) < pow2 (emax t + 1)"
      using nov by (simp add: r_def)
    then have elt: "e < emax t"
      by (simp add: pow2_less_iff)
    define m where "m = sgn M * 2 ^ (precision t - 1)"
    have "2 ^ precision t = (2::int) * 2 ^ (precision t - 1)"
      by (rule power_precision)
    then have M2: "M = m * 2"
      using Meq by (simp add: m_def sgn_if abs_if split: if_splits)
    have "pow2 (k + 1) = 2 * pow2 k"
      by (rule pow2_Suc)
    then have "r = real_of_int m * pow2 (k + 1)"
      by (simp add: r M2)
    moreover have "\<bar>m\<bar> < 2 ^ precision t"
      using Meq \<open>2 ^ precision t = (2::int) * 2 ^ (precision t - 1)\<close>
      by (simp add: m_def abs_mult sgn_if)
    moreover have "2 - emax t - int (precision t) \<le> k + 1"
      "k + 1 \<le> emax t - int (precision t) + 1"
      using klo elt by (simp_all add: k_def p_def)
    ultimately have "is_float t r"
      unfolding is_float_def by blast
    then show ?thesis
      by (simp add: r_def)
  qed
qed

lemma to_dtype_is_value: "is_dtype_value t (to_dtype t x)"
proof (cases "pow2 (emax t + 1) \<le> \<bar>round_nearest t x\<bar>")
  case True
  then show ?thesis
    by (simp add: to_dtype_def)
next
  case False
  then have "is_float t (round_nearest t x)"
    by (intro round_nearest_is_float) simp
  with False show ?thesis
    by (simp add: to_dtype_def)
qed

lemma round_nearest_within_half_ulp: "\<bar>round_nearest t x - x\<bar> \<le> ulp t x / 2"
proof (cases "x = 0")
  case True
  have "0 < ulp t x"
    by (simp add: ulp_def pow2_pos)
  with True show ?thesis
    by (simp add: round_nearest_def)
next
  case False
  define u where "u = ulp t x"
  have u: "0 < u"
    by (simp add: u_def ulp_def pow2_pos)
  have "\<bar>real_of_int (round_half_even (x / u)) - x / u\<bar> \<le> 1 / 2"
    by (rule round_half_even_close)
  then have "\<bar>real_of_int (round_half_even (x / u)) - x / u\<bar> * u \<le> 1 / 2 * u"
    using u by (simp add: mult_right_mono)
  moreover have "\<bar>real_of_int (round_half_even (x / u)) - x / u\<bar> * u
      = \<bar>(real_of_int (round_half_even (x / u)) - x / u) * u\<bar>"
    using u by (simp add: abs_mult)
  moreover have "(real_of_int (round_half_even (x / u)) - x / u) * u
      = real_of_int (round_half_even (x / u)) * u - x"
    using u by (simp add: left_diff_distrib)
  ultimately show ?thesis
    using False by (simp add: round_nearest_def u_def)
qed

lemma to_dtype_within_half_ulp: "within_half_ulp t x (to_dtype t x)"
  using round_nearest_within_half_ulp [of t x] by (simp add: to_dtype_def Let_def)

section \<open>The projection reconstruction\<close>

text \<open>The projection that the six numbers of a document give, when PROJ accepts it.\<close>

lemma projData_present:
  assumes "doc ''lat_0'' = Some lat0" and "doc ''lat_1'' = Some lat1"
    and "doc ''lat_2'' = Some lat2" and "doc ''lon_0'' = Some lon0"
    and "doc ''a'' = Some a" and "doc ''b'' = Some b"
  shows "projData accepts doc =
           new_LambertConformal accepts (to_dtype Float32 lon0) (to_dtype Float32 lat0)
             [to_dtype Float32 lat1, to_dtype Float32 lat2]
             \<lparr>ellipse = Some ''WGS84'', semimajor_axis = Some (to_dtype Float32 a),
               semiminor_axis = Some (to_dtype Float32 b)\<rparr>"
  using assms by (simp add: projData_def loc_float32_def default_Globe_def)

lemma projData_keys:
  assumes "projData accepts doc = Inr p"
  shows "set proj_params \<subseteq> dom doc"
  using assms
  by (auto simp: projData_def loc_float32_def proj_params_def split: option.splits)

lemma six_keys:
  assumes "set proj_params \<subseteq> dom doc"
  obtains lat0 lat1 lat2 lon0 a b where
    "doc ''lat_0'' = Some lat0" "doc ''lat_1'' = Some lat1" "doc ''lat_2'' = Some lat2"
    "doc ''lon_0'' = Some lon0" "doc ''a'' = Some a" "doc ''b'' = Some b"
  using assms by (auto simp: proj_params_def dom_def)

lemma projData_frame:
  assumes "\<forall>k \<in> set proj_params. doc' k = doc k"
  shows "projData accepts doc' = projData accepts doc"
proof -
  have "loc_float32 doc' k = loc_float32 doc k" if "k \<in> set proj_params" for k
    using assms that by (simp add: loc_float32_def)
  then have "loc_float32 doc' ''lat_0'' = loc_float32 doc ''lat_0''"
    "loc_float32 doc' ''lat_1'' = loc_float32 doc ''lat_1''"
    "loc_float32 doc' ''lat_2'' = loc_float32 doc ''lat_2''"
    "loc_float32 doc' ''lon_0'' = loc_float32 doc ''lon_0''"
    "loc_float32 doc' ''a'' = loc_float32 doc ''a''"
    "loc_float32 doc' ''b'' = loc_float32 doc ''b''"
    by (simp_all add: proj_params_def)
  then show ?thesis
    unfolding projData_def by (simp only:)
qed

lemma projData_missing:
  assumes "set proj_params \<subseteq> dom doc" and "k \<in> set proj_params"
  shows "projData accepts (doc(k := None)) = Inl (KeyError k)"
  using assms
  by (auto simp: projData_def loc_float32_def proj_params_def dom_def)

text \<open>
  C9. When the document has the six keys \<^verbatim>\<open>lat_0\<close>, \<^verbatim>\<open>lat_1\<close>, \<^verbatim>\<open>lat_2\<close>, \<^verbatim>\<open>lon_0\<close>,
  \<^verbatim>\<open>a\<close>, \<^verbatim>\<open>b\<close>, the reconstruction hands PROJ exactly this parameter set: the central
  longitude from \<^verbatim>\<open>lon_0\<close>, the central latitude from \<^verbatim>\<open>lat_0\<close>, the two standard
  parallels from \<^verbatim>\<open>lat_1\<close> and \<^verbatim>\<open>lat_2\<close>, and a globe whose two semi-axes are set from
  \<^verbatim>\<open>a\<close> and \<^verbatim>\<open>b\<close> (a globe built without them has none), each number as a 32-bit float;
  it returns that projection when PROJ accepts it and raises \<^verbatim>\<open>CRSError\<close> when not. It
  reads nothing else: any document with the same six entries gives the same result, and
  taking any one of the six away makes it raise \<^verbatim>\<open>KeyError\<close> for that key.
\<close>

theorem projection_consumes_six_parameters:
  assumes "set proj_params \<subseteq> dom doc"
  shows "\<exists>lat0 lat1 lat2 lon0 a b P.
           doc ''lat_0'' = Some lat0 \<and> doc ''lat_1'' = Some lat1 \<and> doc ''lat_2'' = Some lat2 \<and>
           doc ''lon_0'' = Some lon0 \<and> doc ''a'' = Some a \<and> doc ''b'' = Some b \<and>
           P = \<lparr>central_longitude = to_dtype Float32 lon0,
                central_latitude = to_dtype Float32 lat0,
                standard_parallels = [to_dtype Float32 lat1, to_dtype Float32 lat2],
                globe = \<lparr>ellipse = Some ''WGS84'',
                          semimajor_axis = Some (to_dtype Float32 a),
                          semiminor_axis = Some (to_dtype Float32 b)\<rparr>\<rparr> \<and>
           projData accepts doc = (if accepts P then Inr P else Inl CRSError) \<and>
           semimajor_axis default_Globe = None \<and> semiminor_axis default_Globe = None \<and>
           (\<forall>doc'. (\<forall>k \<in> set proj_params. doc' k = doc k)
                     \<longrightarrow> projData accepts doc' = projData accepts doc) \<and>
           (\<forall>k \<in> set proj_params. projData accepts (doc(k := None)) = Inl (KeyError k))"
proof -
  from assms obtain lat0 lat1 lat2 lon0 a b where keys:
    "doc ''lat_0'' = Some lat0" "doc ''lat_1'' = Some lat1" "doc ''lat_2'' = Some lat2"
    "doc ''lon_0'' = Some lon0" "doc ''a'' = Some a" "doc ''b'' = Some b"
    by (rule six_keys)
  define P where "P = \<lparr>central_longitude = to_dtype Float32 lon0,
                central_latitude = to_dtype Float32 lat0,
                standard_parallels = [to_dtype Float32 lat1, to_dtype Float32 lat2],
                globe = \<lparr>ellipse = Some ''WGS84'',
                          semimajor_axis = Some (to_dtype Float32 a),
                          semiminor_axis = Some (to_dtype Float32 b)\<rparr>\<rparr>"
  have res: "projData accepts doc = (if accepts P then Inr P else Inl CRSError)"
    unfolding projData_present [OF keys] new_LambertConformal_def Let_def P_def ..
  have dflt: "semimajor_axis default_Globe = None" "semiminor_axis default_Globe = None"
    by (simp_all add: default_Globe_def)
  have frame: "\<forall>doc'. (\<forall>k \<in> set proj_params. doc' k = doc k)
                     \<longrightarrow> projData accepts doc' = projData accepts doc"
    using projData_frame by blast
  have missing: "\<forall>k \<in> set proj_params. projData accepts (doc(k := None)) = Inl (KeyError k)"
    using projData_missing [OF assms] by blast
  from keys P_def res dflt frame missing show ?thesis
    by blast
qed

theorem projection_consumes_six_parameters_witness:
  "set proj_params \<subseteq> dom example_projparams \<and>
   (\<exists>lat0 lat1 lat2 lon0 a b P.
      example_projparams ''lat_0'' = Some lat0 \<and> example_projparams ''lat_1'' = Some lat1 \<and>
      example_projparams ''lat_2'' = Some lat2 \<and> example_projparams ''lon_0'' = Some lon0 \<and>
      example_projparams ''a'' = Some a \<and> example_projparams ''b'' = Some b \<and>
      P = \<lparr>central_longitude = to_dtype Float32 lon0,
           central_latitude = to_dtype Float32 lat0,
           standard_parallels = [to_dtype Float32 lat1, to_dtype Float32 lat2],
           globe = \<lparr>ellipse = Some ''WGS84'',
                     semimajor_axis = Some (to_dtype Float32 a),
                     semiminor_axis = Some (to_dtype Float32 b)\<rparr>\<rparr> \<and>
      projData example_accepts example_projparams
        = (if example_accepts P then Inr P else Inl CRSError) \<and>
      semimajor_axis default_Globe = None \<and> semiminor_axis default_Globe = None \<and>
      (\<forall>doc'. (\<forall>k \<in> set proj_params. doc' k = example_projparams k)
                \<longrightarrow> projData example_accepts doc' = projData example_accepts example_projparams) \<and>
      (\<forall>k \<in> set proj_params.
         projData example_accepts (example_projparams(k := None)) = Inl (KeyError k))) \<and>
   projData example_accepts example_projparams
     = Inr \<lparr>central_longitude = Finite 262.5, central_latitude = Finite 38.5,
            standard_parallels = [Finite 38.5, Finite 38.5],
            globe = \<lparr>ellipse = Some ''WGS84'', semimajor_axis = Some (Finite 6371229),
                      semiminor_axis = Some (Finite 6371229)\<rparr>\<rparr>"
proof -
  have h: "set proj_params \<subseteq> dom example_projparams"
    by (simp add: proj_params_def example_projparams_def)
  have v: "projData example_accepts example_projparams
     = Inr \<lparr>central_longitude = Finite 262.5, central_latitude = Finite 38.5,
            standard_parallels = [Finite 38.5, Finite 38.5],
            globe = \<lparr>ellipse = Some ''WGS84'', semimajor_axis = Some (Finite 6371229),
                      semiminor_axis = Some (Finite 6371229)\<rparr>\<rparr>"
    by code_simp
  show ?thesis
    by (rule conjI [OF h conjI [OF projection_consumes_six_parameters [OF h] v]])
qed

text \<open>
  C10. Every number in the projection is the 32-bit float nearest to the entry read from
  the document: the central longitude and latitude, the two standard parallels and the two
  semi-axes are \<^verbatim>\<open>lon_0\<close>, \<^verbatim>\<open>lat_0\<close>, \<^verbatim>\<open>lat_1\<close>, \<^verbatim>\<open>lat_2\<close>, \<^verbatim>\<open>a\<close>, \<^verbatim>\<open>b\<close> rounded to
  \<^verbatim>\<open>float32\<close>; the projection holds these six numbers and no other, and each of them is a
  value of the type \<^verbatim>\<open>float32\<close> (a significand of 24 bits at most), within half the
  distance between neighbouring floats of the entry it comes from. In the witness the
  document says 38.1, 262.3 and 6371229.3, and the projection holds 38.09999847412109375,
  262.29998779296875 and 6371229.5, none of which is the entry.
\<close>

theorem projection_parameters_narrowed_to_float32:
  assumes "projData accepts doc = Inr p"
  shows "\<exists>lat0 lat1 lat2 lon0 a b.
           doc ''lat_0'' = Some lat0 \<and> doc ''lat_1'' = Some lat1 \<and> doc ''lat_2'' = Some lat2 \<and>
           doc ''lon_0'' = Some lon0 \<and> doc ''a'' = Some a \<and> doc ''b'' = Some b \<and>
           projection_numbers p = map (to_dtype Float32) [lon0, lat0, lat1, lat2, a, b] \<and>
           list_all (is_dtype_value Float32) (projection_numbers p) \<and>
           list_all2 (within_half_ulp Float32) [lon0, lat0, lat1, lat2, a, b]
             (projection_numbers p)"
proof -
  from projData_keys [OF assms] obtain lat0 lat1 lat2 lon0 a b where keys:
    "doc ''lat_0'' = Some lat0" "doc ''lat_1'' = Some lat1" "doc ''lat_2'' = Some lat2"
    "doc ''lon_0'' = Some lon0" "doc ''a'' = Some a" "doc ''b'' = Some b"
    by (rule six_keys)
  from assms have "p = \<lparr>central_longitude = to_dtype Float32 lon0,
                central_latitude = to_dtype Float32 lat0,
                standard_parallels = [to_dtype Float32 lat1, to_dtype Float32 lat2],
                globe = \<lparr>ellipse = Some ''WGS84'',
                          semimajor_axis = Some (to_dtype Float32 a),
                          semiminor_axis = Some (to_dtype Float32 b)\<rparr>\<rparr>"
    unfolding projData_present [OF keys] new_LambertConformal_def Let_def
    by (simp split: if_splits)
  then have nums: "projection_numbers p = map (to_dtype Float32) [lon0, lat0, lat1, lat2, a, b]"
    by (simp add: projection_numbers_def)
  have vals: "list_all (is_dtype_value Float32) (projection_numbers p)"
    unfolding nums by (simp add: to_dtype_is_value)
  have near: "list_all2 (within_half_ulp Float32) [lon0, lat0, lat1, lat2, a, b]
             (projection_numbers p)"
    unfolding nums by (simp add: to_dtype_within_half_ulp)
  from keys nums vals near show ?thesis
    by blast
qed

theorem projection_parameters_narrowed_to_float32_witness:
  "projData example_accepts example_decimal_projparams
     = Inr \<lparr>central_longitude = Finite (4297523 / 16384),
            central_latitude = Finite (4993843 / 131072),
            standard_parallels = [Finite (4993843 / 131072), Finite (4993843 / 131072)],
            globe = \<lparr>ellipse = Some ''WGS84'',
                      semimajor_axis = Some (Finite (12742459 / 2)),
                      semiminor_axis = Some (Finite (12742459 / 2))\<rparr>\<rparr> \<and>
   (\<exists>lat0 lat1 lat2 lon0 a b.
      example_decimal_projparams ''lat_0'' = Some lat0 \<and>
      example_decimal_projparams ''lat_1'' = Some lat1 \<and>
      example_decimal_projparams ''lat_2'' = Some lat2 \<and>
      example_decimal_projparams ''lon_0'' = Some lon0 \<and>
      example_decimal_projparams ''a'' = Some a \<and>
      example_decimal_projparams ''b'' = Some b \<and>
      projection_numbers
        \<lparr>central_longitude = Finite (4297523 / 16384),
         central_latitude = Finite (4993843 / 131072),
         standard_parallels = [Finite (4993843 / 131072), Finite (4993843 / 131072)],
         globe = \<lparr>ellipse = Some ''WGS84'',
                   semimajor_axis = Some (Finite (12742459 / 2)),
                   semiminor_axis = Some (Finite (12742459 / 2))\<rparr>\<rparr>
        = map (to_dtype Float32) [lon0, lat0, lat1, lat2, a, b] \<and>
      list_all (is_dtype_value Float32)
        (projection_numbers
           \<lparr>central_longitude = Finite (4297523 / 16384),
            central_latitude = Finite (4993843 / 131072),
            standard_parallels = [Finite (4993843 / 131072), Finite (4993843 / 131072)],
            globe = \<lparr>ellipse = Some ''WGS84'',
                      semimajor_axis = Some (Finite (12742459 / 2)),
                      semiminor_axis = Some (Finite (12742459 / 2))\<rparr>\<rparr>) \<and>
      list_all2 (within_half_ulp Float32) [lon0, lat0, lat1, lat2, a, b]
        (projection_numbers
           \<lparr>central_longitude = Finite (4297523 / 16384),
            central_latitude = Finite (4993843 / 131072),
            standard_parallels = [Finite (4993843 / 131072), Finite (4993843 / 131072)],
            globe = \<lparr>ellipse = Some ''WGS84'',
                      semimajor_axis = Some (Finite (12742459 / 2)),
                      semiminor_axis = Some (Finite (12742459 / 2))\<rparr>\<rparr>)) \<and>
   example_decimal_projparams ''lat_0'' \<noteq> Some (4993843 / 131072) \<and>
   example_decimal_projparams ''lon_0'' \<noteq> Some (4297523 / 16384) \<and>
   example_decimal_projparams ''a'' \<noteq> Some (12742459 / 2)"
proof -
  have h: "projData example_accepts example_decimal_projparams
     = Inr \<lparr>central_longitude = Finite (4297523 / 16384),
            central_latitude = Finite (4993843 / 131072),
            standard_parallels = [Finite (4993843 / 131072), Finite (4993843 / 131072)],
            globe = \<lparr>ellipse = Some ''WGS84'',
                      semimajor_axis = Some (Finite (12742459 / 2)),
                      semiminor_axis = Some (Finite (12742459 / 2))\<rparr>\<rparr>"
    by code_simp
  have d: "example_decimal_projparams ''lat_0'' \<noteq> Some (4993843 / 131072) \<and>
           example_decimal_projparams ''lon_0'' \<noteq> Some (4297523 / 16384) \<and>
           example_decimal_projparams ''a'' \<noteq> Some (12742459 / 2)"
    by code_simp
  show ?thesis
    by (rule conjI [OF h conjI [OF projection_parameters_narrowed_to_float32 [OF h] d]])
qed

section \<open>Unit conversion and reduction\<close>

lemma fold_min_Min: "fold min xs x = Min (set (x # xs))" for x :: real
  by (rule Min.set_eq_fold [symmetric])

lemma fold_max_Max: "fold max xs x = Max (set (x # xs))" for x :: real
  by (rule Max.set_eq_fold [symmetric])

lemma compute_airTemp:
  assumes "ds ''TMP'' = Some a" and "reg (units a) ''degC'' = Some f"
  shows "compute_array reg ds airTemp = Inr \<lparr>units = ''degC'', magnitude = map f (magnitude a)\<rparr>"
  using assms by (simp add: airTemp_def)

text \<open>
  Whenever both reductions return, the minimum is at most the maximum and both carry the
  same unit: the two scalars handed to \<^verbatim>\<open>fint\<close> are always in order.
\<close>

lemma pipeline_min_le_max:
  assumes "minTemp reg ds = Inr (u, mn)" and "maxTemp reg ds = Inr (u', mx)"
  shows "mn \<le> mx \<and> u = u'"
proof -
  from assms(1) obtain a x xs where a: "compute_array reg ds airTemp = Inr a"
    and m: "magnitude a = x # xs" and mn: "mn = fold min xs x" and u: "u = units a"
    by (auto simp: minTemp_def split: sum.splits list.splits)
  from assms(2) a m have mx: "mx = fold max xs x" and u': "u' = units a"
    by (auto simp: maxTemp_def)
  have "Min (set (x # xs)) \<le> x" "x \<le> Max (set (x # xs))"
    by simp_all
  then have "mn \<le> mx"
    unfolding mn mx fold_min_Min fold_max_Max by (rule order_trans)
  with u u' show ?thesis
    by simp
qed

text \<open>
  C8. When the dataset has the variable \<^verbatim>\<open>TMP\<close>, its unit converts to degrees Celsius by
  \<open>f\<close> and it has at least one value: the description bound to \<^verbatim>\<open>airTemp\<close> holds one
  conversion, applied to the stored variable, under the reduction; \<^verbatim>\<open>minTemp\<close> and
  \<^verbatim>\<open>maxTemp\<close> are what \<^verbatim>\<open>compute\<close> returns for the minimum and the maximum of that
  description; and they are the least and the greatest of the values converted once by \<open>f\<close>,
  each a single number with the unit \<^verbatim>\<open>degC\<close>.
\<close>

theorem converted_once_then_reduced_on_compute:
  assumes "ds ''TMP'' = Some a" and "reg (units a) ''degC'' = Some f" and "magnitude a \<noteq> []"
  shows "minTemp reg ds = compute reg ds (Min_of (ConvertUnits (DataVar ''TMP'') ''degC''))
       \<and> maxTemp reg ds = compute reg ds (Max_of (ConvertUnits (DataVar ''TMP'') ''degC''))
       \<and> conversions airTemp = 1
       \<and> minTemp reg ds = Inr (''degC'', Min (f ` set (magnitude a)))
       \<and> maxTemp reg ds = Inr (''degC'', Max (f ` set (magnitude a)))"
proof -
  from assms(3) obtain x xs where m: "magnitude a = x # xs"
    by (cases "magnitude a") auto
  have arr: "compute_array reg ds airTemp = Inr \<lparr>units = ''degC'', magnitude = f x # map f xs\<rparr>"
    using compute_airTemp [where ds = ds and reg = reg and a = a and f = f, OF assms(1,2)] m
    by simp
  have img: "set (f x # map f xs) = f ` set (magnitude a)"
    by (simp add: m)
  have "minTemp reg ds = Inr (''degC'', Min (set (f x # map f xs)))"
    unfolding minTemp_def by (simp add: arr fold_min_Min del: set_simps)
  then have mn: "minTemp reg ds = Inr (''degC'', Min (f ` set (magnitude a)))"
    by (simp only: img)
  have "maxTemp reg ds = Inr (''degC'', Max (set (f x # map f xs)))"
    unfolding maxTemp_def by (simp add: arr fold_max_Max del: set_simps)
  then have mx: "maxTemp reg ds = Inr (''degC'', Max (f ` set (magnitude a)))"
    by (simp only: img)
  have g: "minTemp reg ds = compute reg ds (Min_of (ConvertUnits (DataVar ''TMP'') ''degC''))"
    "maxTemp reg ds = compute reg ds (Max_of (ConvertUnits (DataVar ''TMP'') ''degC''))"
    by (simp_all add: minTemp_def maxTemp_def airTemp_def)
  have c: "conversions airTemp = 1"
    by (simp add: airTemp_def)
  from g c mn mx show ?thesis
    by blast
qed

theorem converted_once_then_reduced_on_compute_witness:
  "example_dataset ''TMP'' = Some \<lparr>units = ''K'', magnitude = [273.15, 283.15, 263.15]\<rparr>
   \<and> example_registry (units \<lparr>units = ''K'', magnitude = [273.15, 283.15, 263.15]\<rparr>) ''degC''
       = Some (\<lambda>x. x - 273.15)
   \<and> magnitude \<lparr>units = ''K'', magnitude = [273.15, 283.15, 263.15 :: real]\<rparr> \<noteq> []
   \<and> minTemp example_registry example_dataset = Inr (''degC'', - 10)
   \<and> maxTemp example_registry example_dataset = Inr (''degC'', 10)"
proof -
  have h1: "example_dataset ''TMP'' = Some \<lparr>units = ''K'', magnitude = [273.15, 283.15, 263.15]\<rparr>"
    by (simp add: example_dataset_def)
  have h2: "example_registry (units \<lparr>units = ''K'', magnitude = [273.15, 283.15, 263.15]\<rparr>) ''degC''
       = Some (\<lambda>x. x - 273.15)"
    by (simp add: example_registry_def)
  have h3: "magnitude \<lparr>units = ''K'', magnitude = [273.15, 283.15, 263.15 :: real]\<rparr> \<noteq> []"
    by simp
  note t = converted_once_then_reduced_on_compute
         [where ds = example_dataset and reg = example_registry
            and a = "\<lparr>units = ''K'', magnitude = [273.15, 283.15, 263.15]\<rparr>"
            and f = "\<lambda>x. x - 273.15", OF h1 h2 h3]
  from t have "minTemp example_registry example_dataset =
      Inr (''degC'', Min ((\<lambda>x. x - 273.15) `
        set (magnitude \<lparr>units = ''K'', magnitude = [273.15, 283.15, 263.15 :: real]\<rparr>)))"
    by (elim conjE)
  then have mn: "minTemp example_registry example_dataset = Inr (''degC'', - 10)"
    by simp
  from t have "maxTemp example_registry example_dataset =
      Inr (''degC'', Max ((\<lambda>x. x - 273.15) `
        set (magnitude \<lparr>units = ''K'', magnitude = [273.15, 283.15, 263.15 :: real]\<rparr>)))"
    by (elim conjE)
  then have mx: "maxTemp example_registry example_dataset = Inr (''degC'', 10)"
    by simp
  from h1 h2 h3 mn mx show ?thesis
    by (intro conjI)
qed

section \<open>Properties of the contour levels\<close>

lemma ceiling_half_abs: "\<bar>\<lceil>real_of_int z / 2\<rceil>\<bar> \<le> \<bar>z\<bar>"
proof -
  have "\<lceil>real_of_int z / real_of_int 2\<rceil> = - (- z div 2)"
    by (rule ceiling_divide_eq_div)
  then have "\<lceil>real_of_int z / 2\<rceil> = - (- z div 2)"
    by simp
  then show ?thesis
    by presburger
qed

lemma within_precision:
  assumes "\<bar>n\<bar> < (2::int) ^ (precision t - 1)"
  shows "\<bar>n\<bar> < 2 ^ precision t"
  using assms power_precision [of t] by linarith

lemma diff_within_precision:
  assumes "\<bar>a\<bar> < (2::int) ^ (precision t - 1)" and "\<bar>b\<bar> < (2::int) ^ (precision t - 1)"
  shows "\<bar>a - b\<bar> < 2 ^ precision t"
  using assms power_precision [of t] by linarith

lemma n_levels_upper:
  assumes "0 < n_levels mn mx"
  shows "2 * real (n_levels mn mx - 1) < of_int \<lceil>mx\<rceil> + 2 - of_int \<lfloor>mn\<rfloor>"
proof -
  let ?q = "(of_int \<lceil>mx\<rceil> + 2 - of_int \<lfloor>mn\<rfloor>) / (2::real)"
  have "of_int \<lceil>?q\<rceil> < ?q + 1"
    using ceiling_correct [of ?q] by linarith
  moreover have "of_int \<lceil>?q\<rceil> = real (n_levels mn mx)"
    using assms unfolding n_levels_def by simp
  moreover have "real (n_levels mn mx - 1) = real (n_levels mn mx) - 1"
    using assms by (simp add: of_nat_diff)
  ultimately show ?thesis
    by (simp add: field_simps)
qed

lemma arange_entry_exact:
  assumes r: "in_exact_range t mn mx" and i: "i < n_levels mn mx"
  shows "arange_entry t (of_int \<lfloor>mn\<rfloor>) i = of_int \<lfloor>mn\<rfloor> + 2 * real i"
proof -
  define s where "s = \<lfloor>mn\<rfloor>"
  define c where "c = \<lceil>mx\<rceil>"
  have sb: "\<bar>s\<bar> + 2 < 2 ^ (precision t - 1)" and cb: "\<bar>c\<bar> + 2 < 2 ^ (precision t - 1)"
    using r by (simp_all add: in_exact_range_def s_def c_def)
  have "\<bar>s + 2\<bar> < 2 ^ (precision t - 1)"
    using sb by linarith
  then have "\<bar>s + 2\<bar> < 2 ^ precision t"
    by (rule within_precision)
  then have "round_nearest t (real_of_int (s + 2)) = real_of_int (s + 2)"
    by (rule round_nearest_of_int)
  then have nxt: "round_nearest t (real_of_int s + 2) = real_of_int s + 2"
    by simp
  have "round_nearest Float64 (real_of_int 2) = real_of_int 2"
    by (rule round_nearest_of_int) simp
  then have delta: "round_nearest Float64 (real_of_int s + 2 - real_of_int s) = 2"
    by simp
  have pos: "0 < n_levels mn mx"
    using i by simp
  have "2 * real i \<le> 2 * real (n_levels mn mx - 1)"
    using i by simp
  also have "\<dots> < of_int c + 2 - of_int s"
    using n_levels_upper [OF pos] by (simp add: s_def c_def)
  finally have "real_of_int (s + 2 * int i) < real_of_int (c + 2)"
    by simp
  then have up: "s + 2 * int i < c + 2"
    by (simp only: of_int_less_iff)
  have le53: "(2::int) ^ (precision t - 1) \<le> 2 ^ 53"
    using precision_pred_le [of t] by (intro power_increasing) simp_all
  have "\<bar>s + 2 * int i\<bar> < 2 ^ (precision t - 1)"
    using up sb cb by linarith
  with le53 have "\<bar>s + 2 * int i\<bar> < 2 ^ precision Float64"
    by simp
  then have "round_nearest Float64 (real_of_int (s + 2 * int i)) = real_of_int (s + 2 * int i)"
    by (rule round_nearest_of_int)
  then have fill: "round_nearest Float64 (real_of_int s + 2 * real i) = real_of_int s + 2 * real i"
    by simp
  have "\<bar>2 * int i\<bar> < 2 ^ precision t"
    using up sb cb power_precision [of t] by linarith
  moreover have "(2::int) ^ precision t \<le> 2 ^ 53"
    using precision_bounds [of t] by (intro power_increasing) simp_all
  ultimately have twice: "\<bar>2 * int i\<bar> < 2 ^ precision Float64"
    by simp
  then have "round_nearest Float64 (real_of_int (2 * int i)) = real_of_int (2 * int i)"
    by (rule round_nearest_of_int)
  then have prod: "round_nearest Float64 (real i * 2) = 2 * real i"
    by (simp add: mult.commute)
  from twice have "\<bar>int i\<bar> < 2 ^ precision Float64"
    by linarith
  then have "round_nearest Float64 (real_of_int (int i)) = real_of_int (int i)"
    by (rule round_nearest_of_int)
  then have index: "round_nearest Float64 (real i) = real i"
    by simp
  show ?thesis
    unfolding s_def [symmetric] arange_entry_def Let_def nxt delta index prod fill
    by (cases "i = 0"; cases "i = 1") simp_all
qed

lemma fint_exact:
  assumes r: "in_exact_range t mn mx" and fits: "n_levels mn mx \<le> capacity"
  shows "fint capacity t (Finite mn) (Finite mx) =
           Inr (map (\<lambda>i. of_int \<lfloor>mn\<rfloor> + 2 * real i) [0 ..< n_levels mn mx])"
proof -
  define s where "s = \<lfloor>mn\<rfloor>"
  define c where "c = \<lceil>mx\<rceil>"
  have sb: "\<bar>s\<bar> + 2 < 2 ^ (precision t - 1)" and cb: "\<bar>c\<bar> + 2 < 2 ^ (precision t - 1)"
    using r by (simp_all add: in_exact_range_def s_def c_def)
  have c2: "\<bar>c + 2\<bar> < 2 ^ (precision t - 1)"
    using cb by linarith
  then have "\<bar>c + 2\<bar> < 2 ^ precision t"
    by (rule within_precision)
  then have "to_dtype t (real_of_int (c + 2)) = Finite (real_of_int (c + 2))"
    by (rule to_dtype_of_int)
  then have stop: "np_add t (np_ceil (Finite mx)) 2 = Finite (real_of_int (c + 2))"
    by (simp add: c_def)
  have "\<bar>s\<bar> < 2 ^ (precision t - 1)"
    using sb by linarith
  with c2 have d: "\<bar>c + 2 - s\<bar> < 2 ^ precision t"
    by (rule diff_within_precision)
  then have "to_dtype t (real_of_int (c + 2 - s)) = Finite (real_of_int (c + 2 - s))"
    by (rule to_dtype_of_int)
  then have diff: "to_dtype t (real_of_int (c + 2) - real_of_int s) = Finite (real_of_int (c + 2 - s))"
    by simp
  define L where "L = \<lceil>real_of_int (c + 2 - s) / 2\<rceil>"
  have len: "nat L = n_levels mn mx"
    by (simp add: L_def n_levels_def s_def c_def)
  have "(2::int) ^ precision t \<le> 2 ^ 53"
    using precision_bounds [of t] by (intro power_increasing) simp_all
  then have dd: "\<bar>c + 2 - s\<bar> < 2 ^ 53"
    using d by linarith
  have LL: "\<bar>L\<bar> \<le> \<bar>c + 2 - s\<bar>"
    unfolding L_def by (rule ceiling_half_abs)
  then have small: "\<not> (L < - (2 ^ 63) \<or> 2 ^ 63 < L)"
    using dd power_strict_increasing [of 53 63 "2::int"] by linarith
  have bytes: "\<not> 2 ^ 60 \<le> L"
    using LL dd power_strict_increasing [of 53 60 "2::int"] by linarith
  have "L \<le> int (nat L)"
    by simp
  also have "\<dots> \<le> int capacity"
    using fits by (simp only: len of_nat_le_iff)
  finally have room: "\<not> int capacity < L"
    by simp
  have entries: "map (arange_entry t (real_of_int s)) [0 ..< n_levels mn mx]
      = map (\<lambda>i. real_of_int s + 2 * real i) [0 ..< n_levels mn mx]"
    using arange_entry_exact [OF r] by (simp add: s_def)
  have "np_arange capacity t (Finite (real_of_int s)) (Finite (real_of_int (c + 2)))
          = Inr (map (arange_entry t (real_of_int s)) [0 ..< nat L])"
    by (simp only: np_arange.simps diff np_float.simps Let_def L_def [symmetric]
          small bytes room if_False)
  then show ?thesis
    unfolding fint_def stop np_floor.simps s_def [symmetric]
    by (simp only: len entries)
qed

lemma fint_eq:
  assumes "in_exact_range t mn mx" and "n_levels mn mx \<le> capacity"
  shows "fint capacity t (Finite mn) (Finite mx) =
           Inr (map (\<lambda>i. of_int \<lfloor>mn\<rfloor> + 2 * real i) [0 ..< n_levels mn mx])"
  using assms by (rule fint_exact)

lemma n_levels_pos:
  assumes "mn \<le> mx"
  shows "0 < n_levels mn mx"
proof -
  have "\<lfloor>mn\<rfloor> \<le> \<lceil>mx\<rceil>"
    using assms by (meson ceiling_mono floor_le_ceiling order_trans)
  then have "(of_int \<lfloor>mn\<rfloor> :: real) \<le> of_int \<lceil>mx\<rceil>"
    by simp
  then have "0 < (of_int \<lceil>mx\<rceil> + 2 - of_int \<lfloor>mn\<rfloor>) / (2::real)"
    by simp
  then show ?thesis
    unfolding n_levels_def by simp
qed

lemma n_levels_covers:
  assumes "mn \<le> mx"
  shows "of_int \<lceil>mx\<rceil> \<le> of_int \<lfloor>mn\<rfloor> + 2 * real (n_levels mn mx - 1)"
proof -
  let ?q = "(of_int \<lceil>mx\<rceil> + 2 - of_int \<lfloor>mn\<rfloor>) / (2::real)"
  have pos: "0 < n_levels mn mx"
    using assms by (rule n_levels_pos)
  have "?q \<le> of_int \<lceil>?q\<rceil>"
    by (rule le_of_int_ceiling)
  also have "of_int \<lceil>?q\<rceil> = real (n_levels mn mx)"
    using pos unfolding n_levels_def by simp
  finally have "?q \<le> real (n_levels mn mx)" .
  moreover have "real (n_levels mn mx - 1) = real (n_levels mn mx) - 1"
    using pos by (simp add: of_nat_diff)
  ultimately show ?thesis
    by (simp add: field_simps)
qed

lemma n_levels_degenerate_fraction:
  assumes "of_int \<lfloor>m\<rfloor> \<noteq> m"
  shows "n_levels m m = 2"
proof -
  have "\<lceil>m\<rceil> = \<lfloor>m\<rfloor> + 1"
    using assms by (simp add: ceiling_altdef)
  then have "(of_int \<lceil>m\<rceil> + 2 - of_int \<lfloor>m\<rfloor>) / (2::real) = 3 / 2"
    by simp
  then have "n_levels m m = nat \<lceil>3 / 2 :: real\<rceil>"
    unfolding n_levels_def by (simp only:)
  also have "\<dots> = 2"
    by simp
  finally show ?thesis .
qed

lemma n_levels_degenerate_whole:
  assumes "of_int \<lfloor>m\<rfloor> = m"
  shows "n_levels m m = 1"
proof -
  have "\<lceil>m\<rceil> = \<lceil>of_int \<lfloor>m\<rfloor> :: real\<rceil>"
    by (simp only: assms)
  also have "\<dots> = \<lfloor>m\<rfloor>"
    by (rule ceiling_of_int)
  finally show ?thesis
    unfolding n_levels_def by simp
qed

lemma in_exact_range_example: "in_exact_range t (- 5.3) 7.8"
  by (cases t) (simp_all add: in_exact_range_def)

lemma n_levels_example: "n_levels (- 5.3) 7.8 = 8"
  by (simp add: n_levels_def)

text \<open>
  C3 (as amended). Let the two scalars be finite with \<open>mn \<le> mx\<close>, let them lie in the
  range where the floating-point type \<open>t\<close> of the arithmetic rounds nothing (floor and
  ceiling, moved by 2 away from zero, below \<open>2^(p - 1)\<close> in absolute value, \<open>p\<close> being 11,
  24 or 53), and let the machine have room for the levels. Then the sequence of levels is
  not empty, its first entry is \<open>\<lfloor>mn\<rfloor>\<close>, each entry is the one before it plus 2, so it is
  strictly increasing and has no entry twice, and its last entry is at least \<open>\<lceil>mx\<rceil>\<close>.
  For \<open>mn = -5.3\<close> and \<open>mx = 7.8\<close> it is \<open>-6, -4, \<dots>, 8\<close> in each of the three types, given
  room for eight numbers.
\<close>

theorem contour_levels_cover_range:
  assumes "mn \<le> mx" and "in_exact_range t mn mx" and "n_levels mn mx \<le> capacity"
  shows "(\<exists>ls. fint capacity t (Finite mn) (Finite mx) = Inr ls \<and> ls \<noteq> []
            \<and> hd ls = of_int \<lfloor>mn\<rfloor>
            \<and> (\<forall>i. Suc i < length ls \<longrightarrow> ls ! Suc i = ls ! i + 2)
            \<and> sorted_wrt (<) ls \<and> distinct ls
            \<and> of_int \<lceil>mx\<rceil> \<le> last ls)
         \<and> (8 \<le> capacity \<longrightarrow>
              fint capacity t (Finite (- 5.3)) (Finite 7.8) = Inr [- 6, - 4, - 2, 0, 2, 4, 6, 8])"
proof -
  let ?n = "n_levels mn mx"
  let ?ls = "map (\<lambda>i. of_int \<lfloor>mn\<rfloor> + 2 * real i) [0 ..< ?n]"
  have eq: "fint capacity t (Finite mn) (Finite mx) = Inr ?ls"
    using assms(2,3) by (rule fint_eq)
  have pos: "0 < ?n"
    using assms(1) by (rule n_levels_pos)
  then have ne: "?ls \<noteq> []"
    by simp
  have hd: "hd ?ls = of_int \<lfloor>mn\<rfloor>"
    using pos by (simp add: hd_map upt_conv_Cons)
  have step: "\<forall>i. Suc i < length ?ls \<longrightarrow> ?ls ! Suc i = ?ls ! i + 2"
    by simp
  have sorted: "sorted_wrt (<) ?ls"
    by (simp add: sorted_wrt_map sorted_wrt_iff_nth_less)
  have dist: "distinct ?ls"
    by (simp add: distinct_map inj_on_def)
  have "last ?ls = of_int \<lfloor>mn\<rfloor> + 2 * real (?n - 1)"
    using pos by (simp add: last_map last_upt)
  then have last: "of_int \<lceil>mx\<rceil> \<le> last ?ls"
    using n_levels_covers [OF assms(1)] by simp
  have ex: "fint capacity t (Finite (- 5.3)) (Finite 7.8) = Inr [- 6, - 4, - 2, 0, 2, 4, 6, 8]"
    if "8 \<le> capacity"
  proof -
    from that have "n_levels (- 5.3) 7.8 \<le> capacity"
      by (simp only: n_levels_example)
    with in_exact_range_example
    have "fint capacity t (Finite (- 5.3)) (Finite 7.8)
          = Inr (map (\<lambda>i. of_int \<lfloor>- 5.3 :: real\<rfloor> + 2 * real i) [0 ..< n_levels (- 5.3) 7.8])"
      by (rule fint_eq)
    also have "\<dots> = Inr [- 6, - 4, - 2, 0, 2, 4, 6, 8]"
      by (simp add: n_levels_def upt_rec)
    finally show ?thesis .
  qed
  from eq ne hd step sorted dist last ex show ?thesis
    by blast
qed

theorem contour_levels_cover_range_witness:
  "(- 5.3 :: real) \<le> 7.8 \<and> in_exact_range Float32 (- 5.3) 7.8 \<and> n_levels (- 5.3) 7.8 \<le> 8 \<and>
   (\<exists>ls. fint 8 Float32 (Finite (- 5.3)) (Finite 7.8) = Inr ls \<and> ls \<noteq> []
            \<and> hd ls = of_int \<lfloor>- 5.3 :: real\<rfloor>
            \<and> (\<forall>i. Suc i < length ls \<longrightarrow> ls ! Suc i = ls ! i + 2)
            \<and> sorted_wrt (<) ls \<and> distinct ls
            \<and> of_int \<lceil>7.8 :: real\<rceil> \<le> last ls) \<and>
   fint 8 Float32 (Finite (- 5.3)) (Finite 7.8) = Inr [- 6, - 4, - 2, 0, 2, 4, 6, 8]"
proof -
  have h: "(- 5.3 :: real) \<le> 7.8"
    by simp
  have r: "in_exact_range Float32 (- 5.3) 7.8"
    by (rule in_exact_range_example)
  have c: "n_levels (- 5.3) 7.8 \<le> 8"
    by (simp only: n_levels_example)
  note t = contour_levels_cover_range [OF h r c]
  from t have general: "\<exists>ls. fint 8 Float32 (Finite (- 5.3)) (Finite 7.8) = Inr ls \<and> ls \<noteq> []
            \<and> hd ls = of_int \<lfloor>- 5.3 :: real\<rfloor>
            \<and> (\<forall>i. Suc i < length ls \<longrightarrow> ls ! Suc i = ls ! i + 2)
            \<and> sorted_wrt (<) ls \<and> distinct ls
            \<and> of_int \<lceil>7.8 :: real\<rceil> \<le> last ls"
    by (rule conjunct1)
  from t have "(8::nat) \<le> 8 \<longrightarrow>
      fint 8 Float32 (Finite (- 5.3)) (Finite 7.8) = Inr [- 6, - 4, - 2, 0, 2, 4, 6, 8]"
    by (rule conjunct2)
  then have example: "fint 8 Float32 (Finite (- 5.3)) (Finite 7.8) = Inr [- 6, - 4, - 2, 0, 2, 4, 6, 8]"
    by simp
  from h r c general example show ?thesis
    by (intro conjI)
qed

text \<open>
  The claim as the specification words it (for every pair of scalars) fails where the
  floating-point arithmetic rounds. In \<^verbatim>\<open>float32\<close>, with the minimum and the maximum both
  \<open>2^25\<close>, the sum \<open>2^25 + 2\<close> is the float \<open>2^25\<close>: the stop equals the start and the
  sequence is empty. In \<^verbatim>\<open>float64\<close> the same happens at \<open>2^54\<close>. Room for the levels
  is not what is missing.
\<close>

theorem no_level_where_the_sum_with_2_is_rounded:
  "(2 ^ 25 :: real) \<le> 2 ^ 25 \<and>
   n_levels (2 ^ 25) (2 ^ 25) \<le> 1000 \<and>
   fint 1000 Float32 (Finite (2 ^ 25)) (Finite (2 ^ 25)) = Inr [] \<and>
   (2 ^ 54 :: real) \<le> 2 ^ 54 \<and>
   n_levels (2 ^ 54) (2 ^ 54) \<le> 1000 \<and>
   fint 1000 Float64 (Finite (2 ^ 54)) (Finite (2 ^ 54)) = Inr []"
  by code_simp

text \<open>
  C2 (as amended). When the minimum and the maximum are the same finite number \<open>m\<close>, in
  the range where the type \<open>t\<close> rounds nothing, and the machine has room for the levels: if
  \<open>m\<close> is not a whole number the levels are the two numbers \<open>\<lfloor>m\<rfloor>\<close> and \<open>\<lfloor>m\<rfloor> + 2\<close>,
  with \<open>m\<close> strictly between them; if \<open>m\<close> is a whole number there is the single level \<open>m\<close>.
\<close>

theorem degenerate_range_levels:
  assumes "in_exact_range t m m" and "n_levels m m \<le> capacity"
  shows "(of_int \<lfloor>m\<rfloor> \<noteq> m \<longrightarrow>
            fint capacity t (Finite m) (Finite m) = Inr [of_int \<lfloor>m\<rfloor>, of_int \<lfloor>m\<rfloor> + 2]
            \<and> of_int \<lfloor>m\<rfloor> < m \<and> m < of_int \<lfloor>m\<rfloor> + 2)
       \<and> (of_int \<lfloor>m\<rfloor> = m \<longrightarrow> fint capacity t (Finite m) (Finite m) = Inr [m])"
proof (intro conjI impI)
  assume frac: "of_int \<lfloor>m\<rfloor> \<noteq> m"
  show "fint capacity t (Finite m) (Finite m) = Inr [of_int \<lfloor>m\<rfloor>, of_int \<lfloor>m\<rfloor> + 2]"
    by (simp add: fint_eq [OF assms] n_levels_degenerate_fraction [OF frac] upt_rec)
  show "of_int \<lfloor>m\<rfloor> < m"
    using frac of_int_floor_le [of m] by (simp only: order_less_le simp_thms)
  show "m < of_int \<lfloor>m\<rfloor> + 2"
    by linarith
next
  assume whole: "of_int \<lfloor>m\<rfloor> = m"
  show "fint capacity t (Finite m) (Finite m) = Inr [m]"
    by (simp add: fint_eq [OF assms] n_levels_degenerate_whole [OF whole] whole)
qed

theorem degenerate_range_levels_witness:
  "(in_exact_range Float32 10.5 10.5 \<and> n_levels 10.5 10.5 \<le> 2
      \<and> real_of_int \<lfloor>10.5 :: real\<rfloor> \<noteq> 10.5
      \<and> fint 2 Float32 (Finite 10.5) (Finite 10.5) = Inr [10, 12]
      \<and> (10 :: real) < 10.5 \<and> (10.5 :: real) < 12)
   \<and> (in_exact_range Float32 10 10 \<and> n_levels 10 10 \<le> 2
      \<and> real_of_int \<lfloor>10 :: real\<rfloor> = 10
      \<and> fint 2 Float32 (Finite 10) (Finite 10) = Inr [10])"
proof -
  have rf: "in_exact_range Float32 10.5 10.5"
    by (simp add: in_exact_range_def)
  have rw: "in_exact_range Float32 10 10"
    by (simp add: in_exact_range_def)
  have cf: "n_levels 10.5 10.5 \<le> 2"
    by (simp add: n_levels_def)
  have cw: "n_levels 10 10 \<le> 2"
    by (simp add: n_levels_def)
  have f: "real_of_int \<lfloor>10.5 :: real\<rfloor> \<noteq> 10.5"
    by simp
  have w: "real_of_int \<lfloor>10 :: real\<rfloor> = 10"
    by simp
  from degenerate_range_levels [OF rf cf] f
  have 1: "fint 2 Float32 (Finite 10.5) (Finite 10.5) = Inr [10, 12]
             \<and> (10 :: real) < 10.5 \<and> (10.5 :: real) < 12"
    by simp
  from degenerate_range_levels [OF rw cw] w
  have 2: "fint 2 Float32 (Finite 10) (Finite 10) = Inr [10]"
    by simp
  from rf rw cf cw f w 1 2 show ?thesis
    by blast
qed

text \<open>
  The claim as the specification words it (at least two distinct levels whenever the
  minimum equals the maximum) fails at its own example: for the minimum and the maximum
  both 10.0, \<^verbatim>\<open>np.arange(10.0, 12.0, 2)\<close> has the single entry 10, in each of the three
  floating-point types.
\<close>

theorem single_level_when_min_max_10:
  "fint 1000 Float16 (Finite 10) (Finite 10) = Inr [10] \<and>
   fint 1000 Float32 (Finite 10) (Finite 10) = Inr [10] \<and>
   fint 1000 Float64 (Finite 10) (Finite 10) = Inr [10] \<and> length [10 :: real] = 1"
  by code_simp

end
